theory Spec2Isabelle
  imports Main "HOL-Library.Word" "HOL-Library.AList"
begin

unbundle bit_operations_syntax

section \<open>Go values shared by the packages\<close>

text \<open>
  A Go \<open>string\<close> and a Go \<open>[]byte\<close> are both sequences of 8-bit bytes; both are
  modelled as lists of 8-bit characters. A nil byte slice is written out as an option
  only where the source tests for nil.
\<close>

type_synonym bytes = string

text \<open>
  Errors of \<open>github.com/pkg/errors\<close>: \<open>errors.New(msg)\<close> and
  \<open>errors.Wrap(cause, msg)\<close>. A Go \<open>error\<close> that may be nil is an
  \<open>error option\<close>. \<open>errors.Wrap(nil, msg)\<close> is nil.
\<close>

datatype error = ErrNew string | ErrWrap error string

fun errors_Wrap :: "error option \<Rightarrow> string \<Rightarrow> error option" where
  "errors_Wrap None msg = None"
| "errors_Wrap (Some e) msg = Some (ErrWrap e msg)"

fun Error_text :: "error \<Rightarrow> string" where
  "Error_text (ErrNew msg) = msg"
| "Error_text (ErrWrap e msg) = msg @ '': '' @ Error_text e"

fun Cause :: "error \<Rightarrow> error" where
  "Cause (ErrNew msg) = ErrNew msg"
| "Cause (ErrWrap e msg) = Cause e"

text \<open>A call either returns or panics (a Go run-time panic unwinds the goroutine).\<close>

datatype 'a outcome = Panic string | Return 'a

section \<open>The key-value engine\<close>

text \<open>
  Modelled from the spec: the storage engine (\<open>basedb.IDb\<close>) is an interface declared
  elsewhere in the repository; the spec gives its contract as "prefix-scoped
  get/set/delete/iterate-by-prefix over opaque byte keys/values". The model is an
  association list from the full key (prefix followed by key) to the value. \<open>Get\<close>
  returns \<open>(obj, found, err)\<close> in the source; the model pairs \<open>obj\<close> and \<open>found\<close> as an
  option. The modelled engine itself never fails, so every \<open>err\<close> it returns is nil; the
  callers' error branches are kept as the source has them.
\<close>

type_synonym 'v kvdb = "(bytes \<times> 'v) list"

text \<open>Modelled from the spec: a key lies under a prefix when it starts with it.\<close>

definition has_prefix :: "bytes \<Rightarrow> bytes \<Rightarrow> bool" where
  "has_prefix p k = (take (length p) k = p)"

text \<open>Modelled from the spec: \<open>Get(prefix, key)\<close> of the engine.\<close>

definition db_Get :: "'v kvdb \<Rightarrow> bytes \<Rightarrow> bytes \<Rightarrow> 'v option \<times> error option" where
  "db_Get d prefix key = (map_of d (prefix @ key), None)"

text \<open>Modelled from the spec: \<open>Set(prefix, key, value)\<close> of the engine.\<close>

definition db_Set :: "'v kvdb \<Rightarrow> bytes \<Rightarrow> bytes \<Rightarrow> 'v \<Rightarrow> error option \<times> 'v kvdb" where
  "db_Set d prefix key val = (None, AList.update (prefix @ key) val d)"

text \<open>Modelled from the spec: \<open>Delete(prefix, key)\<close> of the engine.\<close>

definition db_Delete :: "'v kvdb \<Rightarrow> bytes \<Rightarrow> bytes \<Rightarrow> error option \<times> 'v kvdb" where
  "db_Delete d prefix key = (None, AList.delete (prefix @ key) d)"

text \<open>Modelled from the spec: the entries under a prefix, in the order of the engine.\<close>

definition db_collection :: "'v kvdb \<Rightarrow> bytes \<Rightarrow> (bytes \<times> 'v) list" where
  "db_collection d prefix = filter (\<lambda>(k, v). has_prefix prefix k) d"

text \<open>
  Modelled from the spec: the iteration by prefix of the engine.
  \<open>GetAll(prefix, handler)\<close> calls the handler on every entry under the prefix, with
  its position, and stops at the first error the handler returns. The handler of the
  source is a closure that appends to a captured slice; the captured state is the
  accumulator.
\<close>

fun iterate :: "(nat \<Rightarrow> 'v \<Rightarrow> 'a \<Rightarrow> error + 'a) \<Rightarrow> nat \<Rightarrow> 'v list \<Rightarrow> 'a \<Rightarrow> error option \<times> 'a" where
  "iterate h i [] acc = (None, acc)"
| "iterate h i (x # xs) acc =
     (case h i x acc of
        Inl e \<Rightarrow> (Some e, acc)
      | Inr acc' \<Rightarrow> iterate h (Suc i) xs acc')"

text \<open>Modelled from the spec: \<open>GetAll(prefix, handler)\<close> of the engine, by the loop above.\<close>

definition db_GetAll ::
  "'v kvdb \<Rightarrow> bytes \<Rightarrow> (nat \<Rightarrow> 'v \<Rightarrow> 'a \<Rightarrow> error + 'a) \<Rightarrow> 'a \<Rightarrow> error option \<times> 'a" where
  "db_GetAll d prefix h acc = iterate h 0 (map snd (db_collection d prefix)) acc"

text \<open>Modelled from the spec: the number of entries under a prefix.\<close>

definition db_CountByCollection :: "'v kvdb \<Rightarrow> bytes \<Rightarrow> nat" where
  "db_CountByCollection d prefix = length (db_collection d prefix)"

section \<open>The validator catalogue of the exporter (package storage)\<close>

subsection \<open>Records and their JSON form\<close>

record OperatorNodeLink =
  ID :: "64 word"
  OperatorPublicKey :: string

record ValidatorInformation =
  Index :: "64 word"
  PublicKey :: string
  Operators :: "OperatorNodeLink list"

text \<open>
  \<open>encoding/json\<close> is a library: the model keeps a stored value as the JSON document
  (the text between document and bytes is the library's), and follows the struct tags
  of the source: \<open>index\<close>, \<open>publicKey\<close>, \<open>operators\<close>, and \<open>nodeId\<close>, \<open>publicKey\<close> of a
  link. On decoding, an absent or null member leaves the zero value, a member of the
  wrong JSON type or a number outside the field's range is an error, and so is a
  document that is neither null nor an object. A member is looked up by its exact name,
  the first of that name counting; the library also accepts a name that differs in
  case and lets the last duplicate win, which is the same on the documents that
  \<open>json.Marshal\<close> writes, where each name occurs once and as tagged.
\<close>

datatype json = JNull | JNum int | JStr string | JArr "json list" | JObj "(string \<times> json) list"

definition json_type_error :: error where
  "json_type_error = ErrNew ''json: cannot unmarshal value into Go struct field''"

fun json_int64 :: "json option \<Rightarrow> error + 64 word" where
  "json_int64 None = Inr 0"
| "json_int64 (Some JNull) = Inr 0"
| "json_int64 (Some (JNum n)) =
     (if - (2 ^ 63) \<le> n \<and> n < 2 ^ 63 then Inr (word_of_int n) else Inl json_type_error)"
| "json_int64 (Some _) = Inl json_type_error"

fun json_uint64 :: "json option \<Rightarrow> error + 64 word" where
  "json_uint64 None = Inr 0"
| "json_uint64 (Some JNull) = Inr 0"
| "json_uint64 (Some (JNum n)) =
     (if 0 \<le> n \<and> n < 2 ^ 64 then Inr (word_of_int n) else Inl json_type_error)"
| "json_uint64 (Some _) = Inl json_type_error"

fun json_string :: "json option \<Rightarrow> error + string" where
  "json_string None = Inr []"
| "json_string (Some JNull) = Inr []"
| "json_string (Some (JStr s)) = Inr s"
| "json_string (Some _) = Inl json_type_error"

fun sequence :: "(error + 'a) list \<Rightarrow> error + 'a list" where
  "sequence [] = Inr []"
| "sequence (x # xs) =
     (case x of
        Inl e \<Rightarrow> Inl e
      | Inr v \<Rightarrow> (case sequence xs of Inl e \<Rightarrow> Inl e | Inr vs \<Rightarrow> Inr (v # vs)))"

definition marshal_OperatorNodeLink :: "OperatorNodeLink \<Rightarrow> json" where
  "marshal_OperatorNodeLink l =
     JObj [(''nodeId'', JNum (uint (ID l))), (''publicKey'', JStr (OperatorPublicKey l))]"

fun unmarshal_OperatorNodeLink :: "json \<Rightarrow> error + OperatorNodeLink" where
  "unmarshal_OperatorNodeLink JNull = Inr \<lparr>ID = 0, OperatorPublicKey = []\<rparr>"
| "unmarshal_OperatorNodeLink (JObj ms) =
     (case json_uint64 (map_of ms ''nodeId'') of
        Inl e \<Rightarrow> Inl e
      | Inr i \<Rightarrow>
          (case json_string (map_of ms ''publicKey'') of
             Inl e \<Rightarrow> Inl e
           | Inr k \<Rightarrow> Inr \<lparr>ID = i, OperatorPublicKey = k\<rparr>))"
| "unmarshal_OperatorNodeLink _ = Inl json_type_error"

fun json_links :: "json option \<Rightarrow> error + OperatorNodeLink list" where
  "json_links None = Inr []"
| "json_links (Some JNull) = Inr []"
| "json_links (Some (JArr js)) = sequence (map unmarshal_OperatorNodeLink js)"
| "json_links (Some _) = Inl json_type_error"

definition json_Marshal :: "ValidatorInformation \<Rightarrow> error + json" where
  "json_Marshal vi =
     Inr (JObj [(''index'', JNum (sint (Index vi))),
                (''publicKey'', JStr (PublicKey vi)),
                (''operators'', JArr (map marshal_OperatorNodeLink (Operators vi)))])"

definition zero_ValidatorInformation :: ValidatorInformation where
  "zero_ValidatorInformation = \<lparr>Index = 0, PublicKey = [], Operators = []\<rparr>"

fun json_Unmarshal :: "json \<Rightarrow> error + ValidatorInformation" where
  "json_Unmarshal JNull = Inr zero_ValidatorInformation"
| "json_Unmarshal (JObj ms) =
     (case json_int64 (map_of ms ''index'') of
        Inl e \<Rightarrow> Inl e
      | Inr i \<Rightarrow>
          (case json_string (map_of ms ''publicKey'') of
             Inl e \<Rightarrow> Inl e
           | Inr k \<Rightarrow>
               (case json_links (map_of ms ''operators'') of
                  Inl e \<Rightarrow> Inl e
                | Inr os \<Rightarrow> Inr \<lparr>Index = i, PublicKey = k, Operators = os\<rparr>)))"
| "json_Unmarshal _ = Inl json_type_error"

subsection \<open>The storage object and its helpers\<close>

record storage =
  db :: "json kvdb"

definition validatorsPrefix :: bytes where
  "validatorsPrefix = ''validators''"

text \<open>
  Modelled from the spec: \<open>storagePrefix\<close> is declared in another file of the
  package; the spec says only that collections are
  "namespaced". It is the constant prefix of every key of this store; nothing below
  depends on its value.
\<close>

definition storagePrefix :: bytes where
  "storagePrefix = ''exporter/''"

text \<open>
  Modelled from the spec: \<open>normalTo\<close> is declared elsewhere in the
  repository. The spec: "listing supports an inclusive index range filter where an
  upper bound of zero means no upper bound"; the doc comment of \<open>ListValidators\<close>: "when
  'to' equals zero, all validators will be returned". Zero becomes the largest
  \<open>int64\<close>; any other bound is kept.
\<close>

text \<open>\<open>math.MaxInt64\<close>\<close>

definition MaxInt64 :: "64 word" where
  "MaxInt64 = 0x7FFFFFFFFFFFFFFF"

text \<open>Modelled from the spec: \<open>normalTo\<close>, as described above.\<close>

definition normalTo :: "64 word \<Rightarrow> 64 word" where
  "normalTo to = (if to = 0 then MaxInt64 else to)"

text \<open>
  Modelled from the spec: \<open>nextIndex\<close> is declared elsewhere in the
  repository. The spec: the index is "assigned monotonically at first save". The next
  index of a collection is the number of entries stored under the collection's prefix,
  as an \<open>int64\<close>.
\<close>

definition nextIndex :: "storage \<Rightarrow> bytes \<Rightarrow> 64 word \<times> error option" where
  "nextIndex s prefix = (of_nat (db_CountByCollection (db s) (storagePrefix @ prefix)), None)"

text \<open>\<open>bytes.Join([validatorsPrefix(), pubKey], "/")\<close>\<close>

definition validatorKey :: "string \<Rightarrow> bytes" where
  "validatorKey pubKey = validatorsPrefix @ ''/'' @ pubKey"

subsection \<open>ListValidators\<close>

text \<open>
  The handler decodes each stored value and appends it to \<open>validators\<close> when its index
  lies in the range; comparison of \<open>int64\<close> is signed. The result is the slice built so
  far together with the error of \<open>GetAll\<close>.
\<close>

definition ListValidators ::
  "storage \<Rightarrow> 64 word \<Rightarrow> 64 word \<Rightarrow> ValidatorInformation list \<times> error option" where
  "ListValidators s from to =
     (let to' = normalTo to;
          (err, validators) =
             db_GetAll (db s) (storagePrefix @ validatorsPrefix)
               (\<lambda>i obj validators.
                  case json_Unmarshal obj of
                    Inl e \<Rightarrow> Inl e
                  | Inr vi \<Rightarrow>
                      Inr (if from \<le>s Index vi \<and> Index vi \<le>s to'
                           then validators @ [vi] else validators))
               []
      in (validators, err))"

subsection \<open>GetValidatorInformation\<close>

text \<open>
  Returns \<open>(*ValidatorInformation, found, err)\<close>. Not found is tested before the
  error of the engine. A value that does not decode is returned with the error of
  \<open>json.Unmarshal\<close>; the model gives the zero record for the partly filled struct.
\<close>

definition getValidatorInformationNotSafe ::
  "storage \<Rightarrow> string \<Rightarrow> ValidatorInformation option \<times> bool \<times> error option" where
  "getValidatorInformationNotSafe s validatorPubKey =
     (case db_Get (db s) storagePrefix (validatorKey validatorPubKey) of
        (None, err) \<Rightarrow> (None, False, None)
      | (Some obj, Some e) \<Rightarrow> (None, True, Some e)
      | (Some obj, None) \<Rightarrow>
          (case json_Unmarshal obj of
             Inl e \<Rightarrow> (Some zero_ValidatorInformation, True, Some e)
           | Inr vi \<Rightarrow> (Some vi, True, None)))"

definition GetValidatorInformation ::
  "storage \<Rightarrow> string \<Rightarrow> ValidatorInformation option \<times> bool \<times> error option" where
  "GetValidatorInformation s validatorPubKey = getValidatorInformationNotSafe s validatorPubKey"

subsection \<open>SaveValidatorInformation\<close>

definition saveValidatorNotSafe :: "storage \<Rightarrow> ValidatorInformation \<Rightarrow> error option \<times> storage" where
  "saveValidatorNotSafe s val =
     (case json_Marshal val of
        Inl e \<Rightarrow> (errors_Wrap (Some e) ''could not marshal validator information'', s)
      | Inr raw \<Rightarrow>
          (case db_Set (db s) storagePrefix (validatorKey (PublicKey val)) raw of
             (err, d') \<Rightarrow> (err, s\<lparr>db := d'\<rparr>)))"

text \<open>
  The argument is a pointer whose \<open>Index\<close> field the call overwrites, so the call
  returns the error, the storage and the argument as the caller sees it afterwards.
  Reading \<open>info.Index\<close> through a nil pointer would panic.
\<close>

definition SaveValidatorInformation ::
  "storage \<Rightarrow> ValidatorInformation \<Rightarrow> (error option \<times> storage \<times> ValidatorInformation) outcome" where
  "SaveValidatorInformation s validatorInformation =
     (case getValidatorInformationNotSafe s (PublicKey validatorInformation) of
        (info, found, Some e) \<Rightarrow>
          Return (errors_Wrap (Some e) ''could not read information from DB'', s, validatorInformation)
      | (info, True, None) \<Rightarrow>
          (case info of
             None \<Rightarrow> Panic ''invalid memory address or nil pointer dereference''
           | Some i \<Rightarrow> Return (None, s, validatorInformation\<lparr>Index := Index i\<rparr>))
      | (info, False, None) \<Rightarrow>
          (case nextIndex s validatorsPrefix of
             (n, Some e) \<Rightarrow>
               Return (errors_Wrap (Some e) ''could not calculate next validator index'', s,
                       validatorInformation\<lparr>Index := n\<rparr>)
           | (n, None) \<Rightarrow>
               (case saveValidatorNotSafe s (validatorInformation\<lparr>Index := n\<rparr>) of
                  (Some e, s') \<Rightarrow> Return (Some e, s', validatorInformation\<lparr>Index := n\<rparr>)
                | (None, s') \<Rightarrow> Return (None, s', validatorInformation\<lparr>Index := n\<rparr>))))"

subsection \<open>Stating the properties of the catalogue\<close>

text \<open>
  The records a store holds: the values under the validators' prefix, in the order in
  which \<open>GetAll\<close> visits them, decoded. It is an error when some value does not decode.
\<close>

definition stored_validators :: "storage \<Rightarrow> error + ValidatorInformation list" where
  "stored_validators s =
     sequence (map json_Unmarshal (map snd (db_collection (db s) (storagePrefix @ validatorsPrefix))))"

text \<open>
  The invariant of a catalogue that grows by \<open>SaveValidatorInformation\<close> alone: every
  stored value decodes, and every stored index is below the number of stored entries,
  which fits an \<open>int64\<close>.
\<close>

definition catalogue_ok :: "storage \<Rightarrow> bool" where
  "catalogue_ok s =
     (case stored_validators s of
        Inl e \<Rightarrow> False
      | Inr recs \<Rightarrow>
          length recs < 2 ^ 63 \<and> list_all (\<lambda>vi. sint (Index vi) < int (length recs)) recs)"

text \<open>A store with two validators, as two saves into an empty store leave it.\<close>

definition example_validators :: "ValidatorInformation list" where
  "example_validators =
     [\<lparr>Index = 0, PublicKey = ''a1'', Operators = [\<lparr>ID = 1, OperatorPublicKey = ''op1''\<rparr>]\<rparr>,
      \<lparr>Index = 1, PublicKey = ''b2'', Operators = []\<rparr>]"

definition example_storage :: storage where
  "example_storage =
     \<lparr>db = [(''exporter/validators/a1'',
              JObj [(''index'', JNum 0), (''publicKey'', JStr ''a1''),
                    (''operators'', JArr [JObj [(''nodeId'', JNum 1), (''publicKey'', JStr ''op1'')]])]),
             (''exporter/validators/b2'',
              JObj [(''index'', JNum 1), (''publicKey'', JStr ''b2''), (''operators'', JArr [])])]\<rparr>"

text \<open>
  A store whose entry under the key of validator \<open>b2\<close> is not the JSON object of a
  record, as a write by another component or a damaged file would leave it.
\<close>

definition corrupt_storage :: storage where
  "corrupt_storage = \<lparr>db = [(''exporter/validators/b2'', JArr [])]\<rparr>"

section \<open>The signer storage (package ekm)\<close>

subsection \<open>Constants and the storage object\<close>

definition prefix_signer :: string where
  "prefix_signer = ''signer_data-''"

definition walletPrefix :: string where
  "walletPrefix = prefix_signer @ ''wallet-''"

definition walletPath :: string where
  "walletPath = ''wallet''"

definition accountsPrefix :: string where
  "accountsPrefix = prefix_signer @ ''accounts-''"

text \<open>\<open>fmt.Sprintf(accountsPath, id)\<close> with \<open>accountsPath = "accounts_%s"\<close>\<close>

definition accountsPath :: "string \<Rightarrow> string" where
  "accountsPath uuid = ''accounts_'' @ uuid"

definition highestAttPrefix :: string where
  "highestAttPrefix = prefix_signer @ ''highest_att-''"

definition highestProposalPrefix :: string where
  "highestProposalPrefix = prefix_signer @ ''highest_prop-''"

text \<open>
  The fields of \<open>storage\<close> that the methods read: the engine, the name of the beacon
  network and the encryption key. The logger and the lock carry no data.
\<close>

record ekm_storage =
  ekm_db :: "bytes kvdb"
  network :: string
  encryptionKey :: string

definition SetEncryptionKey :: "ekm_storage \<Rightarrow> string \<Rightarrow> ekm_storage" where
  "SetEncryptionKey s newKey = s\<lparr>encryptionKey := newKey\<rparr>"

definition objPrefix :: "ekm_storage \<Rightarrow> string \<Rightarrow> bytes" where
  "objPrefix s obj = network s @ obj"

text \<open>
  \<open>core.Wallet\<close> and \<open>core.ValidatorAccount\<close> are interfaces of a library. A value
  is modelled by what the methods of this file observe of it: the result of
  \<open>json.Marshal\<close>, and for an account the text of its identifier.
\<close>

record Wallet =
  WalletJSON :: "error + bytes"

record ValidatorAccount =
  AccountID :: string
  AccountJSON :: "error + bytes"

subsection \<open>The library functions the package calls\<close>

text \<open>
  AES-GCM (\<open>crypto/aes\<close>, \<open>crypto/cipher\<close>) and the decoders of an account and of a
  wallet are libraries; they are parameters of the model. \<open>Seal key nonce plaintext\<close> is the
  ciphertext followed by the tag; \<open>Open key nonce ciphertext\<close> is the plaintext, or
  \<open>None\<close> when authentication fails.
\<close>

record lib =
  Seal :: "bytes \<Rightarrow> bytes \<Rightarrow> bytes \<Rightarrow> bytes"
  Open :: "bytes \<Rightarrow> bytes \<Rightarrow> bytes \<Rightarrow> bytes option"
  UnmarshalAccount :: "bytes \<Rightarrow> error + ValidatorAccount"
  UnmarshalWallet :: "bytes \<Rightarrow> error + Wallet"

definition NonceSize :: nat where
  "NonceSize = 12"

text \<open>\<open>aes.NewCipher\<close> accepts keys of 16, 24 and 32 bytes; the block is its key.\<close>

definition aes_NewCipher :: "bytes \<Rightarrow> error + bytes" where
  "aes_NewCipher key =
     (if length key = 16 \<or> length key = 24 \<or> length key = 32 then Inr key
      else Inl (ErrNew ''crypto/aes: invalid key size''))"

text \<open>\<open>cipher.NewGCM\<close> fails only for a block size other than 16, which AES never has.\<close>

definition cipher_NewGCM :: "bytes \<Rightarrow> error + bytes" where
  "cipher_NewGCM block = Inr block"

text \<open>\<open>Seal\<close> and \<open>Open\<close> of the AEAD panic on a nonce of the wrong length.\<close>

definition gcm_Seal :: "lib \<Rightarrow> bytes \<Rightarrow> bytes \<Rightarrow> bytes \<Rightarrow> bytes \<Rightarrow> bytes outcome" where
  "gcm_Seal L gcm dst nonce plaintext =
     (if length nonce \<noteq> NonceSize
      then Panic ''crypto/cipher: incorrect nonce length given to GCM''
      else Return (dst @ Seal L gcm nonce plaintext))"

definition gcm_Open :: "lib \<Rightarrow> bytes \<Rightarrow> bytes \<Rightarrow> bytes \<Rightarrow> (error + bytes) outcome" where
  "gcm_Open L gcm nonce ciphertext =
     (if length nonce \<noteq> NonceSize
      then Panic ''crypto/cipher: incorrect nonce length given to GCM''
      else Return (case Open L gcm nonce ciphertext of
                     None \<Rightarrow> Inl (ErrNew ''cipher: message authentication failed'')
                   | Some plaintext \<Rightarrow> Inr plaintext))"

text \<open>
  \<open>io.ReadFull(rand.Reader, buf)\<close>: the reader is modelled by the bytes it is going
  to deliver; the read fills the whole buffer or fails.
\<close>

definition io_ReadFull :: "bytes \<Rightarrow> nat \<Rightarrow> error + bytes" where
  "io_ReadFull r n = (if n \<le> length r then Inr (take n r) else Inl (ErrNew ''unexpected EOF''))"

text \<open>Slice expressions \<open>data[:n]\<close> and \<open>data[n:]\<close> panic when \<open>n\<close> is out of range.\<close>

definition slice_to :: "bytes \<Rightarrow> nat \<Rightarrow> bytes outcome" where
  "slice_to data n =
     (if n \<le> length data then Return (take n data) else Panic ''slice bounds out of range'')"

definition slice_from :: "bytes \<Rightarrow> nat \<Rightarrow> bytes outcome" where
  "slice_from data n =
     (if n \<le> length data then Return (drop n data) else Panic ''slice bounds out of range'')"

text \<open>
  \<open>ssz.MarshalUint64\<close> appends the eight bytes of the value, little-endian;
  \<open>ssz.UnmarshallUint64\<close> reads them back and panics on fewer than eight bytes.
\<close>

fun le_bytes :: "nat \<Rightarrow> nat \<Rightarrow> bytes" where
  "le_bytes 0 n = []"
| "le_bytes (Suc k) n = char_of n # le_bytes k (n div 256)"

fun le_value :: "bytes \<Rightarrow> nat" where
  "le_value [] = 0"
| "le_value (c # cs) = of_char c + 256 * le_value cs"

definition ssz_MarshalUint64 :: "bytes \<Rightarrow> 64 word \<Rightarrow> bytes" where
  "ssz_MarshalUint64 dst i = dst @ le_bytes 8 (unat i)"

definition ssz_UnmarshallUint64 :: "bytes \<Rightarrow> 64 word outcome" where
  "ssz_UnmarshallUint64 src =
     (if length src < 8 then Panic ''index out of range''
      else Return (of_nat (le_value (take 8 src))))"

subsection \<open>MD5 and the key derivation\<close>

text \<open>
  \<open>crypto/md5\<close> is a library; it is written out (RFC 1321) so that \<open>createHash\<close> can
  be evaluated. Inside the digest a byte is an \<open>8 word\<close> and a word has 32 bits, read
  little-endian; additions wrap.
\<close>

definition md5_K :: "32 word list" where
  "md5_K =
     [
      0xd76aa478, 0xe8c7b756, 0x242070db, 0xc1bdceee,
      0xf57c0faf, 0x4787c62a, 0xa8304613, 0xfd469501,
      0x698098d8, 0x8b44f7af, 0xffff5bb1, 0x895cd7be,
      0x6b901122, 0xfd987193, 0xa679438e, 0x49b40821,
      0xf61e2562, 0xc040b340, 0x265e5a51, 0xe9b6c7aa,
      0xd62f105d, 0x02441453, 0xd8a1e681, 0xe7d3fbc8,
      0x21e1cde6, 0xc33707d6, 0xf4d50d87, 0x455a14ed,
      0xa9e3e905, 0xfcefa3f8, 0x676f02d9, 0x8d2a4c8a,
      0xfffa3942, 0x8771f681, 0x6d9d6122, 0xfde5380c,
      0xa4beea44, 0x4bdecfa9, 0xf6bb4b60, 0xbebfbc70,
      0x289b7ec6, 0xeaa127fa, 0xd4ef3085, 0x04881d05,
      0xd9d4d039, 0xe6db99e5, 0x1fa27cf8, 0xc4ac5665,
      0xf4292244, 0x432aff97, 0xab9423a7, 0xfc93a039,
      0x655b59c3, 0x8f0ccc92, 0xffeff47d, 0x85845dd1,
      0x6fa87e4f, 0xfe2ce6e0, 0xa3014314, 0x4e0811a1,
      0xf7537e82, 0xbd3af235, 0x2ad7d2bb, 0xeb86d391]"

definition md5_s :: "nat list" where
  "md5_s =
     [
      7, 12, 17, 22, 7, 12, 17, 22, 7, 12, 17, 22, 7, 12, 17, 22,
      5, 9, 14, 20, 5, 9, 14, 20, 5, 9, 14, 20, 5, 9, 14, 20,
      4, 11, 16, 23, 4, 11, 16, 23, 4, 11, 16, 23, 4, 11, 16, 23,
      6, 10, 15, 21, 6, 10, 15, 21, 6, 10, 15, 21, 6, 10, 15, 21]"

definition md5_F :: "nat \<Rightarrow> 32 word \<Rightarrow> 32 word \<Rightarrow> 32 word \<Rightarrow> 32 word" where
  "md5_F i b c d =
     (if i < 16 then (b AND c) OR (NOT b AND d)
      else if i < 32 then (d AND b) OR (NOT d AND c)
      else if i < 48 then b XOR c XOR d
      else c XOR (b OR NOT d))"

definition md5_g :: "nat \<Rightarrow> nat" where
  "md5_g i =
     (if i < 16 then i
      else if i < 32 then (5 * i + 1) mod 16
      else if i < 48 then (3 * i + 5) mod 16
      else (7 * i) mod 16)"

type_synonym md5_state = "32 word \<times> 32 word \<times> 32 word \<times> 32 word"

definition rotl32 :: "nat \<Rightarrow> 32 word \<Rightarrow> 32 word" where
  "rotl32 n w = push_bit n w OR drop_bit (32 - n) w"

fun md5_step :: "32 word list \<Rightarrow> md5_state \<Rightarrow> nat \<Rightarrow> md5_state" where
  "md5_step M (a, b, c, d) i =
     (d, b + rotl32 (md5_s ! i) (md5_F i b c d + a + md5_K ! i + M ! md5_g i), b, c)"

fun md5_add :: "md5_state \<Rightarrow> md5_state \<Rightarrow> md5_state" where
  "md5_add (a0, b0, c0, d0) (a, b, c, d) = (a0 + a, b0 + b, c0 + c, d0 + d)"

definition md5_init :: md5_state where
  "md5_init = (0x67452301, 0xefcdab89, 0x98badcfe, 0x10325476)"

definition md5_block :: "md5_state \<Rightarrow> 32 word list \<Rightarrow> md5_state" where
  "md5_block st M = md5_add st (foldl (md5_step M) st [0..<64])"

definition octet :: "char \<Rightarrow> 8 word" where
  "octet c = of_nat (of_char c)"

fun le32 :: "8 word list \<Rightarrow> 32 word" where
  "le32 (b0 # b1 # b2 # b3 # rest) =
     ucast b0 OR push_bit 8 (ucast b1) OR push_bit 16 (ucast b2) OR push_bit 24 (ucast b3)"
| "le32 _ = 0"

definition md5_words :: "8 word list \<Rightarrow> 32 word list" where
  "md5_words bs = map (\<lambda>j. le32 (drop (4 * j) bs)) [0..<16]"

definition md5_blocks :: "8 word list \<Rightarrow> md5_state" where
  "md5_blocks p =
     foldl (\<lambda>st k. md5_block st (md5_words (drop (64 * k) p))) md5_init [0..<length p div 64]"

definition octets32 :: "32 word \<Rightarrow> 8 word list" where
  "octets32 w = [ucast w, ucast (drop_bit 8 w), ucast (drop_bit 16 w), ucast (drop_bit 24 w)]"

definition octets64 :: "64 word \<Rightarrow> 8 word list" where
  "octets64 w =
     [ucast w, ucast (drop_bit 8 w), ucast (drop_bit 16 w), ucast (drop_bit 24 w),
      ucast (drop_bit 32 w), ucast (drop_bit 40 w), ucast (drop_bit 48 w), ucast (drop_bit 56 w)]"

definition md5_pad :: "8 word list \<Rightarrow> 8 word list" where
  "md5_pad msg =
     msg @ [0x80] @ replicate ((119 - length msg mod 64) mod 64) 0
         @ octets64 (of_nat (8 * length msg))"

fun md5_digest :: "md5_state \<Rightarrow> 8 word list" where
  "md5_digest (a, b, c, d) = octets32 a @ octets32 b @ octets32 c @ octets32 d"

definition md5_Sum :: "string \<Rightarrow> 8 word list" where
  "md5_Sum msg = md5_digest (md5_blocks (md5_pad (map octet msg)))"

definition hexdigit :: "8 word \<Rightarrow> char" where
  "hexdigit n = ''0123456789abcdef'' ! unat n"

definition hex_EncodeToString :: "8 word list \<Rightarrow> string" where
  "hex_EncodeToString bs = concat (map (\<lambda>b. [hexdigit (drop_bit 4 b), hexdigit (b AND 0x0F)]) bs)"

text \<open>\<open>createHash\<close>: the hexadecimal text of the MD5 digest of the key, 32 characters.\<close>

definition createHash :: "string \<Rightarrow> string" where
  "createHash key = hex_EncodeToString (md5_Sum key)"

text \<open>
  Two passphrases of 128 bytes that differ in six bytes and have the same MD5 digest
  (the collision published by Wang and Yu, 2004).
\<close>

definition collision_a :: string where
  "collision_a =
     [
      CHR 0xD1, CHR 0x31, CHR 0xDD, CHR 0x02, CHR 0xC5, CHR 0xE6, CHR 0xEE, CHR 0xC4,
      CHR 0x69, CHR 0x3D, CHR 0x9A, CHR 0x06, CHR 0x98, CHR 0xAF, CHR 0xF9, CHR 0x5C,
      CHR 0x2F, CHR 0xCA, CHR 0xB5, CHR 0x87, CHR 0x12, CHR 0x46, CHR 0x7E, CHR 0xAB,
      CHR 0x40, CHR 0x04, CHR 0x58, CHR 0x3E, CHR 0xB8, CHR 0xFB, CHR 0x7F, CHR 0x89,
      CHR 0x55, CHR 0xAD, CHR 0x34, CHR 0x06, CHR 0x09, CHR 0xF4, CHR 0xB3, CHR 0x02,
      CHR 0x83, CHR 0xE4, CHR 0x88, CHR 0x83, CHR 0x25, CHR 0x71, CHR 0x41, CHR 0x5A,
      CHR 0x08, CHR 0x51, CHR 0x25, CHR 0xE8, CHR 0xF7, CHR 0xCD, CHR 0xC9, CHR 0x9F,
      CHR 0xD9, CHR 0x1D, CHR 0xBD, CHR 0xF2, CHR 0x80, CHR 0x37, CHR 0x3C, CHR 0x5B,
      CHR 0xD8, CHR 0x82, CHR 0x3E, CHR 0x31, CHR 0x56, CHR 0x34, CHR 0x8F, CHR 0x5B,
      CHR 0xAE, CHR 0x6D, CHR 0xAC, CHR 0xD4, CHR 0x36, CHR 0xC9, CHR 0x19, CHR 0xC6,
      CHR 0xDD, CHR 0x53, CHR 0xE2, CHR 0xB4, CHR 0x87, CHR 0xDA, CHR 0x03, CHR 0xFD,
      CHR 0x02, CHR 0x39, CHR 0x63, CHR 0x06, CHR 0xD2, CHR 0x48, CHR 0xCD, CHR 0xA0,
      CHR 0xE9, CHR 0x9F, CHR 0x33, CHR 0x42, CHR 0x0F, CHR 0x57, CHR 0x7E, CHR 0xE8,
      CHR 0xCE, CHR 0x54, CHR 0xB6, CHR 0x70, CHR 0x80, CHR 0xA8, CHR 0x0D, CHR 0x1E,
      CHR 0xC6, CHR 0x98, CHR 0x21, CHR 0xBC, CHR 0xB6, CHR 0xA8, CHR 0x83, CHR 0x93,
      CHR 0x96, CHR 0xF9, CHR 0x65, CHR 0x2B, CHR 0x6F, CHR 0xF7, CHR 0x2A, CHR 0x70]"

definition collision_b :: string where
  "collision_b =
     [
      CHR 0xD1, CHR 0x31, CHR 0xDD, CHR 0x02, CHR 0xC5, CHR 0xE6, CHR 0xEE, CHR 0xC4,
      CHR 0x69, CHR 0x3D, CHR 0x9A, CHR 0x06, CHR 0x98, CHR 0xAF, CHR 0xF9, CHR 0x5C,
      CHR 0x2F, CHR 0xCA, CHR 0xB5, CHR 0x07, CHR 0x12, CHR 0x46, CHR 0x7E, CHR 0xAB,
      CHR 0x40, CHR 0x04, CHR 0x58, CHR 0x3E, CHR 0xB8, CHR 0xFB, CHR 0x7F, CHR 0x89,
      CHR 0x55, CHR 0xAD, CHR 0x34, CHR 0x06, CHR 0x09, CHR 0xF4, CHR 0xB3, CHR 0x02,
      CHR 0x83, CHR 0xE4, CHR 0x88, CHR 0x83, CHR 0x25, CHR 0xF1, CHR 0x41, CHR 0x5A,
      CHR 0x08, CHR 0x51, CHR 0x25, CHR 0xE8, CHR 0xF7, CHR 0xCD, CHR 0xC9, CHR 0x9F,
      CHR 0xD9, CHR 0x1D, CHR 0xBD, CHR 0x72, CHR 0x80, CHR 0x37, CHR 0x3C, CHR 0x5B,
      CHR 0xD8, CHR 0x82, CHR 0x3E, CHR 0x31, CHR 0x56, CHR 0x34, CHR 0x8F, CHR 0x5B,
      CHR 0xAE, CHR 0x6D, CHR 0xAC, CHR 0xD4, CHR 0x36, CHR 0xC9, CHR 0x19, CHR 0xC6,
      CHR 0xDD, CHR 0x53, CHR 0xE2, CHR 0x34, CHR 0x87, CHR 0xDA, CHR 0x03, CHR 0xFD,
      CHR 0x02, CHR 0x39, CHR 0x63, CHR 0x06, CHR 0xD2, CHR 0x48, CHR 0xCD, CHR 0xA0,
      CHR 0xE9, CHR 0x9F, CHR 0x33, CHR 0x42, CHR 0x0F, CHR 0x57, CHR 0x7E, CHR 0xE8,
      CHR 0xCE, CHR 0x54, CHR 0xB6, CHR 0x70, CHR 0x80, CHR 0x28, CHR 0x0D, CHR 0x1E,
      CHR 0xC6, CHR 0x98, CHR 0x21, CHR 0xBC, CHR 0xB6, CHR 0xA8, CHR 0x83, CHR 0x93,
      CHR 0x96, CHR 0xF9, CHR 0x65, CHR 0xAB, CHR 0x6F, CHR 0xF7, CHR 0x2A, CHR 0x70]"

subsection \<open>Encryption of stored values\<close>

text \<open>
  \<open>encrypt\<close> discards the error of \<open>aes.NewCipher\<close>; with a nil block
  \<open>cipher.NewGCM\<close> would dereference nil. The nonce is read from \<open>rand.Reader\<close>
  (the argument \<open>rnd\<close>), and \<open>Seal\<close> appends its output to the nonce.
\<close>

definition encrypt :: "lib \<Rightarrow> bytes \<Rightarrow> bytes \<Rightarrow> string \<Rightarrow> (error + bytes) outcome" where
  "encrypt L rnd data passphrase =
     (case aes_NewCipher (createHash passphrase) of
        Inl e \<Rightarrow> Panic ''invalid memory address or nil pointer dereference''
      | Inr block \<Rightarrow>
          (case cipher_NewGCM block of
             Inl e \<Rightarrow> Return (Inl e)
           | Inr gcm \<Rightarrow>
               (case io_ReadFull rnd NonceSize of
                  Inl e \<Rightarrow> Return (Inl e)
                | Inr nonce \<Rightarrow>
                    (case gcm_Seal L gcm nonce nonce data of
                       Panic p \<Rightarrow> Panic p
                     | Return ciphertext \<Rightarrow> Return (Inr ciphertext)))))"

definition decrypt :: "lib \<Rightarrow> bytes \<Rightarrow> string \<Rightarrow> (error + bytes) outcome" where
  "decrypt L data passphrase =
     (case aes_NewCipher (createHash passphrase) of
        Inl e \<Rightarrow> Return (Inl e)
      | Inr block \<Rightarrow>
          (case cipher_NewGCM block of
             Inl e \<Rightarrow> Return (Inl e)
           | Inr gcm \<Rightarrow>
               if length data < NonceSize then Return (Inl (ErrNew ''malformed ciphertext''))
               else
                 (case slice_to data NonceSize of
                    Panic p \<Rightarrow> Panic p
                  | Return nonce \<Rightarrow>
                      (case slice_from data NonceSize of
                         Panic p \<Rightarrow> Panic p
                       | Return ciphertext \<Rightarrow>
                           (case gcm_Open L gcm nonce ciphertext of
                              Panic p \<Rightarrow> Panic p
                            | Return (Inl e) \<Rightarrow> Return (Inl e)
                            | Return (Inr plaintext) \<Rightarrow> Return (Inr plaintext))))))"

definition decryptData :: "lib \<Rightarrow> ekm_storage \<Rightarrow> bytes \<Rightarrow> (error + bytes) outcome" where
  "decryptData L s objectValue =
     (if encryptionKey s \<noteq> []
      then (case decrypt L objectValue (encryptionKey s) of
              Panic p \<Rightarrow> Panic p
            | Return (Inl e) \<Rightarrow> Return (Inl (ErrWrap e ''failed to decrypt wallet''))
            | Return (Inr decryptedData) \<Rightarrow> Return (Inr decryptedData))
      else Return (Inr objectValue))"

definition encryptData :: "lib \<Rightarrow> bytes \<Rightarrow> ekm_storage \<Rightarrow> bytes \<Rightarrow> (error + bytes) outcome" where
  "encryptData L rnd s objectValue =
     (if encryptionKey s \<noteq> []
      then (case encrypt L rnd objectValue (encryptionKey s) of
              Panic p \<Rightarrow> Panic p
            | Return (Inl e) \<Rightarrow> Return (Inl (ErrWrap e ''failed to encrypt wallet''))
            | Return (Inr encryptedData) \<Rightarrow> Return (Inr encryptedData))
      else Return (Inr objectValue))"

subsection \<open>Wallet and accounts\<close>

definition SaveWallet :: "ekm_storage \<Rightarrow> Wallet \<Rightarrow> error option \<times> ekm_storage" where
  "SaveWallet s wallet =
     (case WalletJSON wallet of
        Inl e \<Rightarrow> (Some (ErrWrap e ''failed to marshal wallet''), s)
      | Inr data \<Rightarrow>
          (case db_Set (ekm_db s) (objPrefix s walletPrefix) walletPath data of
             (err, d') \<Rightarrow> (err, s\<lparr>ekm_db := d'\<rparr>)))"

text \<open>
  \<open>OpenWallet\<close> returns \<open>(wallet, err)\<close>; it decodes the stored bytes as they are.
\<close>

definition OpenWallet :: "lib \<Rightarrow> ekm_storage \<Rightarrow> Wallet option \<times> error option" where
  "OpenWallet L s =
     (case db_Get (ekm_db s) (objPrefix s walletPrefix) walletPath of
        (None, err) \<Rightarrow> (None, Some (ErrNew ''could not find wallet''))
      | (Some obj, Some e) \<Rightarrow> (None, Some (ErrWrap e ''failed to open wallet''))
      | (Some obj, None) \<Rightarrow>
          if length obj = 0 then (None, Some (ErrNew ''failed to open wallet''))
          else (case UnmarshalWallet L obj of
                  Inl e \<Rightarrow> (None, Some (ErrWrap e ''failed to unmarshal HD Wallet object''))
                | Inr ret \<Rightarrow> (Some ret, None)))"


definition ErrCantDecrypt :: error where
  "ErrCantDecrypt = ErrNew (''can'' @ [CHR 0x27] @ ''t decrypt stored wallet, wrong password?'')"

definition decodeAccount :: "lib \<Rightarrow> bytes \<Rightarrow> ValidatorAccount option \<times> error option" where
  "decodeAccount L byts =
     (if length byts = 0 then (None, Some (ErrNew ''bytes are empty''))
      else (case UnmarshalAccount L byts of
              Inl e \<Rightarrow> (None, Some (ErrWrap e ''failed to unmarshal HD account object''))
            | Inr ret \<Rightarrow> (Some ret, None)))"

definition OpenAccount ::
  "lib \<Rightarrow> ekm_storage \<Rightarrow> string \<Rightarrow> (ValidatorAccount option \<times> error option) outcome" where
  "OpenAccount L s accountID =
     (let key = accountsPath accountID in
        case db_Get (ekm_db s) (objPrefix s accountsPrefix) key of
          (None, err) \<Rightarrow> Return (None, Some (ErrNew ''account not found''))
        | (Some obj, Some e) \<Rightarrow> Return (None, Some (ErrWrap e ''failed to open account''))
        | (Some obj, None) \<Rightarrow>
            (case decryptData L s obj of
               Panic p \<Rightarrow> Panic p
             | Return (Inl err) \<Rightarrow> Return (None, Some (ErrWrap ErrCantDecrypt (Error_text err)))
             | Return (Inr decryptedData) \<Rightarrow> Return (decodeAccount L decryptedData)))"

subsection \<open>The highest proposal\<close>

text \<open>The public key is a byte slice that may be nil; a slot is a \<open>uint64\<close>.\<close>

definition SaveHighestProposal ::
  "ekm_storage \<Rightarrow> bytes option \<Rightarrow> 64 word \<Rightarrow> error option \<times> ekm_storage" where
  "SaveHighestProposal s pubKey slot =
     (case pubKey of
        None \<Rightarrow> (Some (ErrNew ''pubKey must not be nil''), s)
      | Some pk \<Rightarrow>
          if slot = 0 then (Some (ErrNew ''invalid proposal slot, slot could not be 0''), s)
          else
            (let data = ssz_MarshalUint64 [] slot in
               case db_Set (ekm_db s) (objPrefix s highestProposalPrefix) pk data of
                 (err, d') \<Rightarrow> (err, s\<lparr>ekm_db := d'\<rparr>)))"

text \<open>
  Returns \<open>(slot, found, err)\<close>. For an empty stored value the source returns
  \<open>errors.Wrap(err, ...)\<close> with \<open>err\<close> nil at that point, which is nil.
\<close>

definition RetrieveHighestProposal ::
  "ekm_storage \<Rightarrow> bytes option \<Rightarrow> (64 word \<times> bool \<times> error option) outcome" where
  "RetrieveHighestProposal s pubKey =
     (case pubKey of
        None \<Rightarrow> Return (0, False, Some (ErrNew ''public key could not be nil''))
      | Some pk \<Rightarrow>
          (case db_Get (ekm_db s) (objPrefix s highestProposalPrefix) pk of
             (obj, Some e) \<Rightarrow>
               Return (0, obj \<noteq> None, Some (ErrWrap e ''could not get highest proposal from db''))
           | (None, None) \<Rightarrow> Return (0, False, None)
           | (Some val, None) \<Rightarrow>
               if length val = 0
               then Return (0, True, errors_Wrap None ''highest proposal value is empty'')
               else (case ssz_UnmarshallUint64 val of
                       Panic p \<Rightarrow> Panic p
                     | Return slot \<Rightarrow> Return (slot, True, None))))"

definition RemoveHighestProposal :: "ekm_storage \<Rightarrow> bytes \<Rightarrow> error option \<times> ekm_storage" where
  "RemoveHighestProposal s pubKey =
     (case db_Delete (ekm_db s) (objPrefix s highestProposalPrefix) pubKey of
        (err, d') \<Rightarrow> (err, s\<lparr>ekm_db := d'\<rparr>))"

subsection \<open>Stating the properties of the signer storage\<close>


text \<open>
  A transparent stand-in for the AEAD, to instantiate the parameters: the sealed text
  is the key, the nonce and the plaintext in sequence, and opening checks the key and
  the nonce. Opening what was sealed under the same key gives the plaintext back, which
  is what the statements below assume of an AEAD; opening under another key of the
  same length fails; it gives no secrecy. The stand-ins for the decoders take the bytes
  as the identifier and as the JSON text.
\<close>

definition demo_lib :: lib where
  "demo_lib =
     \<lparr>Seal = (\<lambda>key nonce plaintext. key @ nonce @ plaintext),
      Open = (\<lambda>key nonce ciphertext.
                if take (length key + length nonce) ciphertext = key @ nonce
                then Some (drop (length key + length nonce) ciphertext) else None),
      UnmarshalAccount = (\<lambda>byts. Inr \<lparr>AccountID = byts, AccountJSON = Inr byts\<rparr>),
      UnmarshalWallet = (\<lambda>byts. Inr \<lparr>WalletJSON = Inr byts\<rparr>)\<rparr>"




definition demo_rand :: bytes where
  "demo_rand = ''0123456789abcdef''"

text \<open>
  A storage whose key is another passphrase and which holds, for the account \<open>acc-1\<close>,
  the blob that \<open>encrypt\<close> produces for the payload under the passphrase \<open>secret\<close>.
\<close>

definition demo_wrong_key_storage :: ekm_storage where
  "demo_wrong_key_storage =
     \<lparr>ekm_db = [(''pratersigner_data-accounts-accounts_acc-1'',
                  ''0123456789ab'' @ ''5ebe2294ecd0e0f08eab7690d2a6ee69'' @ ''0123456789ab'' @ ''payload'')],
      network = ''prater'', encryptionKey = ''hunter2''\<rparr>"

section \<open>The validator runtime (packages validator and controller)\<close>

subsection \<open>Messages and identifiers\<close>

text \<open>
  Modelled from the spec: the role type, the identifier and the message envelope are
  declared elsewhere in the repository. The spec: a validator "owns one
  Controller per duty role (attester, proposer, ...)"; an identifier is the "composite
  key = (validator public key, duty role)"; the envelope is "{ type: {Consensus,
  PostConsensus, Sync}, identifier: Identifier, data: opaque payload }". The role and
  the message type are integer types in Go, so each has a constructor for the values
  that have no name here. The source names \<open>RoleTypeAttester\<close> and the three message
  types.
\<close>

datatype RoleType = RoleTypeAttester | RoleTypeProposer | RoleTypeOther nat

text \<open>Modelled from the spec: the identifier, "(validator public key, duty role)".\<close>

record Identifier =
  ValidatorPK :: bytes
  Role :: RoleType

text \<open>Modelled from the spec: the role of an identifier.\<close>

definition GetRoleType :: "Identifier \<Rightarrow> RoleType" where
  "GetRoleType identifier = Role identifier"

text \<open>Modelled from the spec: the type of an envelope, "{Consensus, PostConsensus, Sync}".\<close>

datatype MsgType = SSVConsensusMsgType | SSVPostConsensusMsgType | SSVSyncMsgType | SSVOtherMsgType nat

text \<open>Modelled from the spec: the envelope, "{ type, identifier, data }".\<close>

record SSVMessage =
  MsgType :: MsgType
  MsgID :: Identifier
  Data :: bytes

subsection \<open>Controllers\<close>

text \<open>
  \<open>Controllers\<close> is a Go map from the role to the controller; the lookup of an absent
  role gives nil. A controller is an object that processing mutates in place; the
  model keeps the object in the map and the processing functions return the validator
  with the object updated.
\<close>

type_synonym 'c Controllers = "RoleType \<rightharpoonup> 'c"

definition ControllerForIdentifier :: "'c Controllers \<Rightarrow> Identifier \<Rightarrow> 'c option" where
  "ControllerForIdentifier c identifier = (let role = GetRoleType identifier in c role)"

subsection \<open>The validator\<close>

text \<open>
  Modelled from the spec: the worker queue is declared elsewhere in the
  repository. The spec: "Each queue has a fixed capacity; TryEnqueue is non-blocking
  and drops ... when full". \<open>NewValidator\<close> configures a buffer of 100.
\<close>

record Worker =
  queue :: "SSVMessage list"
  Buffer :: nat

text \<open>Modelled from the spec: a worker with an empty queue of the given capacity.\<close>

definition NewWorker :: "nat \<Rightarrow> Worker" where
  "NewWorker buffer = \<lparr>queue = [], Buffer = buffer\<rparr>"

text \<open>Modelled from the spec: \<open>TryEnqueue\<close> "is non-blocking and drops ... when full".\<close>

definition TryEnqueue :: "Worker \<Rightarrow> SSVMessage \<Rightarrow> bool \<times> Worker" where
  "TryEnqueue w msg =
     (if length (queue w) < Buffer w then (True, w\<lparr>queue := queue w @ [msg]\<rparr>) else (False, w))"

text \<open>
  Modelled from the spec: \<open>SignatureState\<close> is declared elsewhere in the
  repository. The spec: "{ collected: mapping from operator ID to partial signature,
  timeout: duration, startedAt: timestamp }"; \<open>NewValidator\<close> sets the timeout.
\<close>

record SignatureState =
  signatureCollectionTimeout :: nat
  collected :: "(nat \<times> bytes) list"

text \<open>The fields of \<open>Options\<close> and of \<open>Validator\<close> that carry data of this model.\<close>

record Options =
  Share :: bytes
  SignatureCollectionTimeout :: nat
  ReadMode :: bool

record 'c Validator =
  share :: bytes
  worker :: Worker
  signatureState :: SignatureState
  ibfts :: "'c Controllers"
  readMode :: bool

text \<open>
  \<open>setupIbftController\<close> calls \<open>controller.New\<close>, which is declared elsewhere in the
  repository and is a parameter here: it makes the controller of a role
  from the options. \<open>setupIbfts\<close> makes the map and puts one entry into it.
\<close>

definition setupIbftController :: "(RoleType \<Rightarrow> Options \<Rightarrow> 'c) \<Rightarrow> RoleType \<Rightarrow> Options \<Rightarrow> 'c" where
  "setupIbftController controller_New role opt = controller_New role opt"

definition setupIbfts :: "(RoleType \<Rightarrow> Options \<Rightarrow> 'c) \<Rightarrow> Options \<Rightarrow> 'c Controllers" where
  "setupIbfts controller_New opt =
     (let ibfts = Map.empty;
          ibfts = ibfts(RoleTypeAttester \<mapsto> setupIbftController controller_New RoleTypeAttester opt)
      in ibfts)"

definition NewValidator :: "(RoleType \<Rightarrow> Options \<Rightarrow> 'c) \<Rightarrow> Options \<Rightarrow> 'c Validator" where
  "NewValidator controller_New opt =
     (let queueWorker = NewWorker 100;
          ibfts = setupIbfts controller_New opt
      in \<lparr>share = Share opt,
          worker = queueWorker,
          signatureState = \<lparr>signatureCollectionTimeout = SignatureCollectionTimeout opt, collected = []\<rparr>,
          ibfts = ibfts,
          readMode = ReadMode opt\<rparr>)"

subsection \<open>Handling a message\<close>

text \<open>
  The methods \<open>validateMessage\<close>, \<open>processConsensusMsg\<close> and \<open>processPostConsensusSig\<close>
  and the decoders of the two payloads are declared elsewhere in the
  repository; they are parameters of the handler. The two processing methods get
  the validator and may change it, return an error or panic.
\<close>

record ('c, 'sm, 'pm) deps =
  validateMessage :: "'c Validator \<Rightarrow> SSVMessage \<Rightarrow> error option"
  SignedMessage_Decode :: "bytes \<Rightarrow> error + 'sm"
  SignedPostConsensusMessage_Decode :: "bytes \<Rightarrow> error + 'pm"
  processConsensusMsg :: "'c Validator \<Rightarrow> 'c option \<Rightarrow> 'sm \<Rightarrow> (error option \<times> 'c Validator) outcome"
  processPostConsensusSig :: "'c Validator \<Rightarrow> 'c option \<Rightarrow> 'pm \<Rightarrow> (error option \<times> 'c Validator) outcome"

text \<open>
  \<open>messageHandler\<close>: a message that fails validation is logged and the handler returns
  nil. The controller is looked up (nil for a role without a controller) and handed to
  the processing method of the message type. The sync type panics. Any other type
  falls out of the switch and returns nil.
\<close>

definition messageHandler ::
  "('c, 'sm, 'pm) deps \<Rightarrow> 'c Validator \<Rightarrow> SSVMessage \<Rightarrow> (error option \<times> 'c Validator) outcome" where
  "messageHandler D v msg =
     (case validateMessage D v msg of
        Some err \<Rightarrow> Return (None, v)
      | None \<Rightarrow>
          (let ibftController = ControllerForIdentifier (ibfts v) (MsgID msg) in
             case MsgType msg of
               SSVConsensusMsgType \<Rightarrow>
                 (case SignedMessage_Decode D (Data msg) of
                    Inl err \<Rightarrow>
                      Return (Some (ErrWrap err ''could not get post consensus Message from SSVMessage''), v)
                  | Inr signedMsg \<Rightarrow> processConsensusMsg D v ibftController signedMsg)
             | SSVPostConsensusMsgType \<Rightarrow>
                 (case SignedPostConsensusMessage_Decode D (Data msg) of
                    Inl err \<Rightarrow>
                      Return (Some (ErrWrap err ''could not get post consensus Message from network Message''), v)
                  | Inr signedMsg \<Rightarrow> processPostConsensusSig D v ibftController signedMsg)
             | SSVSyncMsgType \<Rightarrow> Panic ''need to implement!''
             | SSVOtherMsgType n \<Rightarrow> Return (None, v)))"

text \<open>
  \<open>ProcessMsg\<close> has no result in the source (the result types are commented out). In
  read mode it calls the handler and returns whatever the error is. Otherwise it hands
  the message to the worker; the \<open>switch\<close> before that has two cases whose bodies are
  sketches of queues that the struct does not have, and is left out.
\<close>

definition ProcessMsg :: "('c, 'sm, 'pm) deps \<Rightarrow> 'c Validator \<Rightarrow> SSVMessage \<Rightarrow> 'c Validator outcome" where
  "ProcessMsg D v msg =
     (if readMode v
      then (case messageHandler D v msg of
              Panic p \<Rightarrow> Panic p
            | Return (err, v') \<Rightarrow> Return v')
      else Return (v\<lparr>worker := snd (TryEnqueue (worker v) msg)\<rparr>))"


subsection \<open>The worker\<close>

text \<open>
  Modelled from the spec: the loop of the worker is declared elsewhere in the
  repository. \<open>Start\<close> registers \<open>messageHandler\<close> as the handler. The spec: "A single
  worker ... drains the general queue and invokes the message handler ..., swallowing
  per-message errors (logged, not propagated)". One step takes the message at the head
  of the queue and calls the handler on it.
\<close>

definition worker_step :: "('c, 'sm, 'pm) deps \<Rightarrow> 'c Validator \<Rightarrow> 'c Validator outcome" where
  "worker_step D v =
     (case queue (worker v) of
        [] \<Rightarrow> Return v
      | msg # rest \<Rightarrow>
          (case messageHandler D (v\<lparr>worker := (worker v)\<lparr>queue := rest\<rparr>\<rparr>) msg of
             Panic p \<Rightarrow> Panic p
           | Return (err, v') \<Rightarrow> Return v'))"

text \<open>
  What happens to a validator: the network delivers a message to \<open>ProcessMsg\<close>, or the
  worker takes a step. A run goes through a list of such events; a panic ends it, and
  the run gives the validator as it was before the panic, with the panic.
\<close>

datatype event = Deliver SSVMessage | Work

definition do_event :: "('c, 'sm, 'pm) deps \<Rightarrow> 'c Validator \<Rightarrow> event \<Rightarrow> 'c Validator outcome" where
  "do_event D v e = (case e of Deliver msg \<Rightarrow> ProcessMsg D v msg | Work \<Rightarrow> worker_step D v)"

fun run :: "('c, 'sm, 'pm) deps \<Rightarrow> 'c Validator \<Rightarrow> event list \<Rightarrow> 'c Validator \<times> string option" where
  "run D v [] = (v, None)"
| "run D v (e # es) =
     (case do_event D v e of
        Panic p \<Rightarrow> (v, Some p)
      | Return v' \<Rightarrow> run D v' es)"

subsection \<open>The QBFT instance and the controller, from the spec\<close>

text \<open>
  Modelled from the spec: the QBFT instance is declared elsewhere in the
  repository. The spec: a signed message is "{ message: consensus payload (round,
  height/slot, message-type, proposed value or vote), signers: set of operator IDs,
  signature }" and "signers set is non-empty and signature must validate against the
  declared signers before any state transition occurs". The check of the signature is
  a library; a message carries its result.
\<close>

datatype QBFTMsgKind = ProposalMsg | PrepareMsg | CommitMsg | RoundChangeMsg

text \<open>Modelled from the spec: the signed message, as described above.\<close>

record SignedMessage =
  Kind :: QBFTMsgKind
  Round :: nat
  Height :: nat
  Val :: bytes
  Signers :: "nat list"
  SignatureValid :: bool

text \<open>
  Modelled from the spec: the state of an instance is "{ currentRound: monotonic
  counter starting at 1, height ..., decided: optional(decided value, round it was
  decided at, quorum signers), proposalAccepted per round, prepared/committed vote
  tallies per round }", with the operator set, the own operator and the quorum size
  of the agreement ("2f+1-of-3f+1 (or configured quorum size N)"). A tally maps a
  round and a value to the operators that voted for it.
\<close>

type_synonym tally = "((nat \<times> bytes) \<times> nat list) list"

text \<open>Modelled from the spec: the state of an instance, as described above.\<close>

record Instance =
  operatorSet :: "nat list"
  self :: nat
  quorumSize :: nat
  currentRound :: nat
  height :: nat
  decided :: "(bytes \<times> nat \<times> nat list) option"
  proposalAccepted :: "(nat \<times> bytes) list"
  prepared :: tally
  committed :: tally
  roundChanges :: "(nat \<times> nat list) list"

text \<open>Modelled from the spec: the operators a tally holds for a key.\<close>

definition votes :: "('k \<times> nat list) list \<Rightarrow> 'k \<Rightarrow> nat list" where
  "votes t k = (case map_of t k of None \<Rightarrow> [] | Some signers \<Rightarrow> signers)"

text \<open>Modelled from the spec: a tally with the votes of more operators for a key.\<close>

definition add_votes :: "('k \<times> nat list) list \<Rightarrow> 'k \<Rightarrow> nat list \<Rightarrow> ('k \<times> nat list) list" where
  "add_votes t k signers = AList.update k (List.union (votes t k) signers) t"

text \<open>
  Modelled from the spec: "on proposal acceptance broadcasts/records prepare vote; on
  reaching quorum of prepares, broadcasts/records commit vote; on reaching quorum of
  commits, marks decided"; and for round changes "on quorum of round-change votes for
  the same target round, starts that round".
\<close>

definition record_message :: "Instance \<Rightarrow> SignedMessage \<Rightarrow> Instance" where
  "record_message inst msg =
     (case Kind msg of
        ProposalMsg \<Rightarrow>
          (case map_of (proposalAccepted inst) (Round msg) of
             Some accepted \<Rightarrow> inst
           | None \<Rightarrow>
               inst\<lparr>proposalAccepted := AList.update (Round msg) (Val msg) (proposalAccepted inst),
                    prepared := add_votes (prepared inst) (Round msg, Val msg) [self inst]\<rparr>)
      | PrepareMsg \<Rightarrow> inst\<lparr>prepared := add_votes (prepared inst) (Round msg, Val msg) (Signers msg)\<rparr>
      | CommitMsg \<Rightarrow> inst\<lparr>committed := add_votes (committed inst) (Round msg, Val msg) (Signers msg)\<rparr>
      | RoundChangeMsg \<Rightarrow>
          (let rc = add_votes (roundChanges inst) (Round msg) (Signers msg)
           in inst\<lparr>roundChanges := rc,
                   currentRound := (if quorumSize inst \<le> length (votes rc (Round msg))
                                    then max (currentRound inst) (Round msg) else currentRound inst)\<rparr>))"

text \<open>Modelled from the spec: "on reaching quorum of prepares, broadcasts/records commit vote".\<close>

definition commit_when_prepared :: "Instance \<Rightarrow> nat \<Rightarrow> bytes \<Rightarrow> Instance" where
  "commit_when_prepared inst r val =
     (if quorumSize inst \<le> length (votes (prepared inst) (r, val))
      then inst\<lparr>committed := add_votes (committed inst) (r, val) [self inst]\<rparr>
      else inst)"

text \<open>Modelled from the spec: "on reaching quorum of commits, marks decided".\<close>

definition decide_when_committed :: "Instance \<Rightarrow> nat \<Rightarrow> bytes \<Rightarrow> Instance" where
  "decide_when_committed inst r val =
     (if quorumSize inst \<le> length (votes (committed inst) (r, val))
      then inst\<lparr>decided := Some (val, r, votes (committed inst) (r, val))\<rparr>
      else inst)"

text \<open>
  Modelled from the spec: \<open>ProcessMessage(signedMsg)\<close> "validates signature and
  round/height applicability; ... on reaching quorum of commits, marks decided and
  returns the decided value plus signer set, exactly once; ignores (accepts without
  effect) late-arriving duplicate votes from the same round after decision; fails with
  InvalidSignatureError, StaleRoundError (message round < current round and not
  decided), or UnknownSignerError". The result is the error, or the decided report of
  this message (if it made the instance decide) and the instance.
\<close>

definition Instance_ProcessMessage ::
  "Instance \<Rightarrow> SignedMessage \<Rightarrow> error + ((bytes \<times> nat list) option \<times> Instance)" where
  "Instance_ProcessMessage inst msg =
     (if \<not> SignatureValid msg \<or> Signers msg = [] then Inl (ErrNew ''InvalidSignatureError'')
      else if \<not> list_all (\<lambda>signer. signer \<in> set (operatorSet inst)) (Signers msg)
      then Inl (ErrNew ''UnknownSignerError'')
      else if Height msg \<noteq> height inst then Inl (ErrNew ''StaleStateError'')
      else
        (case decided inst of
           Some d \<Rightarrow> Inr (None, inst)
         | None \<Rightarrow>
             if Round msg < currentRound inst then Inl (ErrNew ''StaleRoundError'')
             else
               (let inst' = decide_when_committed
                              (commit_when_prepared (record_message inst msg) (Round msg) (Val msg))
                              (Round msg) (Val msg)
                in case decided inst' of
                     None \<Rightarrow> Inr (None, inst')
                   | Some (val, r, signers) \<Rightarrow> Inr (Some (val, signers), inst'))))"

text \<open>
  Modelled from the spec: the controller is declared elsewhere in the
  repository. The spec: it "owns one QBFT Instance ... per duty identifier for a given
  role" and "on Instance decide, the Controller durably stores the decided
  SignedMessage before considering the duty decided to external callers". The
  controller keeps the decided reports it has made, in order.
\<close>

record Controller =
  controllerRole :: RoleType
  liveInstance :: Instance
  decidedReports :: "(bytes \<times> nat list) list"

text \<open>Modelled from the spec: the controller forwards the message to its instance and keeps the
  decided report, if the instance makes one.\<close>

definition Controller_ProcessConsensusMessage ::
  "Controller \<Rightarrow> SignedMessage \<Rightarrow> error option \<times> Controller" where
  "Controller_ProcessConsensusMessage c msg =
     (case Instance_ProcessMessage (liveInstance c) msg of
        Inl e \<Rightarrow> (Some e, c)
      | Inr (None, inst') \<Rightarrow> (None, c\<lparr>liveInstance := inst'\<rparr>)
      | Inr (Some report, inst') \<Rightarrow>
          (None, c\<lparr>liveInstance := inst', decidedReports := decidedReports c @ [report]\<rparr>))"

text \<open>
  Modelled from the spec: \<open>processConsensusMsg\<close> forwards the decoded message to the
  instance of the controller; for a nil controller the spec says the "caller must
  treat nil as drop message". The controller object is updated in place.
\<close>

definition spec_processConsensusMsg ::
  "Controller Validator \<Rightarrow> Controller option \<Rightarrow> SignedMessage
     \<Rightarrow> (error option \<times> Controller Validator) outcome" where
  "spec_processConsensusMsg v ibftController signedMsg =
     (case ibftController of
        None \<Rightarrow> Return (None, v)
      | Some c \<Rightarrow>
          (case Controller_ProcessConsensusMessage c signedMsg of
             (err, c') \<Rightarrow> Return (err, v\<lparr>ibfts := (ibfts v)(controllerRole c \<mapsto> c')\<rparr>)))"

text \<open>
  Modelled from the spec: a post-consensus message carries the partial signature of an
  operator; \<open>AddSignature\<close> "fails with DuplicateSignerError if operatorID already
  recorded for this duty", else the signature is recorded in the signature state.
\<close>

record SignedPostConsensusMessage =
  OperatorID :: nat
  PartialSignature :: bytes

text \<open>Modelled from the spec: \<open>processPostConsensusSig\<close>, as described above; a nil controller
  drops the message.\<close>

definition spec_processPostConsensusSig ::
  "Controller Validator \<Rightarrow> Controller option \<Rightarrow> SignedPostConsensusMessage
     \<Rightarrow> (error option \<times> Controller Validator) outcome" where
  "spec_processPostConsensusSig v ibftController signedMsg =
     (case ibftController of
        None \<Rightarrow> Return (None, v)
      | Some c \<Rightarrow>
          (case map_of (collected (signatureState v)) (OperatorID signedMsg) of
             Some sig \<Rightarrow> Return (Some (ErrNew ''DuplicateSignerError''), v)
           | None \<Rightarrow>
               Return (None,
                 v\<lparr>signatureState := (signatureState v)
                      \<lparr>collected := collected (signatureState v)
                                      @ [(OperatorID signedMsg, PartialSignature signedMsg)]\<rparr>\<rparr>)))"

text \<open>
  The handler's parameters with the two processing methods from the spec; the
  validation and the decoders stay arbitrary.
\<close>

definition spec_deps ::
  "(Controller Validator \<Rightarrow> SSVMessage \<Rightarrow> error option) \<Rightarrow> (bytes \<Rightarrow> error + SignedMessage)
     \<Rightarrow> (bytes \<Rightarrow> error + SignedPostConsensusMessage)
     \<Rightarrow> (Controller, SignedMessage, SignedPostConsensusMessage) deps" where
  "spec_deps validate decode decodePost =
     \<lparr>validateMessage = validate,
      SignedMessage_Decode = decode,
      SignedPostConsensusMessage_Decode = decodePost,
      processConsensusMsg = spec_processConsensusMsg,
      processPostConsensusSig = spec_processPostConsensusSig\<rparr>"

text \<open>
  Modelled from the spec: \<open>controller.New\<close> makes a controller with a fresh instance:
  round 1, not decided, no votes, no reports; here for four operators with a quorum of
  three, the own operator being 1.
\<close>

definition spec_controller_New :: "RoleType \<Rightarrow> Options \<Rightarrow> Controller" where
  "spec_controller_New role opt =
     \<lparr>controllerRole = role,
      liveInstance = \<lparr>operatorSet = [1, 2, 3, 4], self = 1, quorumSize = 3, currentRound = 1, height = 0,
                  decided = None, proposalAccepted = [], prepared = [], committed = [],
                  roundChanges = []\<rparr>,
      decidedReports = []\<rparr>"

subsection \<open>Stating the properties of the validator\<close>

text \<open>
  Every controller of the validator has made at most one decided report, and has made
  none while its instance is undecided.
\<close>

definition reported_once :: "Controller Validator \<Rightarrow> bool" where
  "reported_once v =
     (\<forall>role c. ibfts v role = Some c \<longrightarrow>
        length (decidedReports c) \<le> 1 \<and> (decided (liveInstance c) = None \<longrightarrow> decidedReports c = []))"


text \<open>
  Stand-ins for the parameters, to instantiate them: the validation that accepts
  every message; a decoder that reads the first byte of the payload as the digit of
  the signing operator and the rest as the value of a commit message of round 1; and a
  decoder that reads a partial signature in the same way.
\<close>

definition demo_decode :: "bytes \<Rightarrow> error + SignedMessage" where
  "demo_decode payload =
     (case payload of
        [] \<Rightarrow> Inl (ErrNew ''empty payload'')
      | c # val \<Rightarrow>
          Inr \<lparr>Kind = CommitMsg, Round = 1, Height = 0, Val = val,
               Signers = [of_char c - 48], SignatureValid = True\<rparr>)"

definition demo_decodePost :: "bytes \<Rightarrow> error + SignedPostConsensusMessage" where
  "demo_decodePost payload =
     (case payload of
        [] \<Rightarrow> Inl (ErrNew ''empty payload'')
      | c # sig \<Rightarrow> Inr \<lparr>OperatorID = of_char c - 48, PartialSignature = sig\<rparr>)"

definition demo_deps :: "(Controller, SignedMessage, SignedPostConsensusMessage) deps" where
  "demo_deps = spec_deps (\<lambda>v msg. None) demo_decode demo_decodePost"

definition demo_options :: Options where
  "demo_options = \<lparr>Share = ''pk'', SignatureCollectionTimeout = 5, ReadMode = True\<rparr>"

definition demo_validator :: "Controller Validator" where
  "demo_validator = NewValidator spec_controller_New demo_options"

definition demo_message :: "MsgType \<Rightarrow> RoleType \<Rightarrow> bytes \<Rightarrow> SSVMessage" where
  "demo_message t role payload =
     \<lparr>MsgType = t, MsgID = \<lparr>ValidatorPK = ''pk'', Role = role\<rparr>, Data = payload\<rparr>"

text \<open>
  Two more stand-ins: parameters whose validation rejects every message, and
  parameters whose processing of a post-consensus message panics.
\<close>

definition demo_rejecting_deps :: "(Controller, SignedMessage, SignedPostConsensusMessage) deps" where
  "demo_rejecting_deps = spec_deps (\<lambda>v msg. Some (ErrNew ''invalid message'')) demo_decode demo_decodePost"

definition demo_panicking_deps :: "(Controller, SignedMessage, SignedPostConsensusMessage) deps" where
  "demo_panicking_deps =
     \<lparr>validateMessage = (\<lambda>v msg. None),
      SignedMessage_Decode = demo_decode,
      SignedPostConsensusMessage_Decode = demo_decodePost,
      processConsensusMsg = spec_processConsensusMsg,
      processPostConsensusSig = (\<lambda>v c m. Panic ''boom'')\<rparr>"

text \<open>The condition of \<open>reported_once\<close> on one controller.\<close>

definition controller_ok :: "Controller \<Rightarrow> bool" where
  "controller_ok c =
     (length (decidedReports c) \<le> 1 \<and> (decided (liveInstance c) = None \<longrightarrow> decidedReports c = []))"

text \<open>Commit messages of the operators 1 to 4 for the value \<open>v\<close>, delivered in turn.\<close>

definition demo_commits :: "event list" where
  "demo_commits =
     [Deliver (demo_message SSVConsensusMsgType RoleTypeAttester ''1v''),
      Deliver (demo_message SSVConsensusMsgType RoleTypeAttester ''2v''),
      Deliver (demo_message SSVConsensusMsgType RoleTypeAttester ''3v''),
      Deliver (demo_message SSVConsensusMsgType RoleTypeAttester ''4v'')]"

section \<open>Properties of the validator catalogue\<close>

subsection \<open>Decoding what was encoded\<close>

lemma json_int64_sint: "json_int64 (Some (JNum (sint (w :: 64 word)))) = Inr w"
proof -
  have "- (2 ^ 63) \<le> sint w" using sint_ge [of w] by simp
  moreover have "sint w < 2 ^ 63" using sint_lt [of w] by simp
  ultimately show ?thesis by simp
qed

lemma json_uint64_uint: "json_uint64 (Some (JNum (uint (w :: 64 word)))) = Inr w"
proof -
  have "uint w < 2 ^ 64" using uint_bounded [of w] by simp
  then show ?thesis by simp
qed

lemma unmarshal_marshal_link: "unmarshal_OperatorNodeLink (marshal_OperatorNodeLink l) = Inr l"
  by (simp add: marshal_OperatorNodeLink_def json_uint64_uint del: json_uint64.simps)

lemma sequence_links: "sequence (map unmarshal_OperatorNodeLink (map marshal_OperatorNodeLink ls)) = Inr ls"
  by (induction ls) (simp_all add: unmarshal_marshal_link del: unmarshal_OperatorNodeLink.simps)

lemma json_Unmarshal_Marshal: "json_Marshal vi = Inr raw \<Longrightarrow> json_Unmarshal raw = Inr vi"
  using sequence_links [of "Operators vi"]
  by (auto simp: json_Marshal_def json_int64_sint simp del: json_int64.simps map_map)

lemma sequence_snoc:
  "sequence xs = Inr rs \<Longrightarrow> x = Inr r \<Longrightarrow> sequence (xs @ [x]) = Inr (rs @ [r])"
  by (induction xs arbitrary: rs) (auto split: sum.splits)

lemma sequence_member:
  "sequence (map f xs) = Inr rs \<Longrightarrow> x \<in> set xs \<Longrightarrow> \<exists>r \<in> set rs. f x = Inr r"
  by (induction xs arbitrary: rs) (auto split: sum.splits)

lemma sequence_length: "sequence xs = Inr rs \<Longrightarrow> length rs = length xs"
  by (induction xs arbitrary: rs) (auto split: sum.splits)

lemma iterate_decode:
  assumes "sequence (map json_Unmarshal vs) = Inr recs"
  shows "iterate (\<lambda>i obj validators.
                  case json_Unmarshal obj of
                    Inl e \<Rightarrow> Inl e
                  | Inr vi \<Rightarrow> Inr (if P vi then validators @ [vi] else validators)) i vs acc
         = (None, acc @ filter P recs)"
  using assms
proof (induction vs arbitrary: i acc recs)
  case Nil
  then show ?case by simp
next
  case (Cons v vs)
  then show ?case by (auto split: sum.splits)
qed

lemma ListValidators_filter:
  assumes "stored_validators s = Inr recs"
  shows "ListValidators s from to =
           (filter (\<lambda>vi. from \<le>s Index vi \<and> Index vi \<le>s normalTo to) recs, None)"
  using assms iterate_decode [of _ recs "\<lambda>vi. from \<le>s Index vi \<and> Index vi \<le>s normalTo to" 0 "[]"]
  by (simp add: ListValidators_def db_GetAll_def stored_validators_def)

lemma sle_MaxInt64: "w \<le>s MaxInt64"
proof -
  have "sint w < 2 ^ 63" using sint_lt [of w] by simp
  moreover have "sint MaxInt64 = 2 ^ 63 - 1" by (simp add: MaxInt64_def)
  ultimately show ?thesis by (simp add: word_sle_eq)
qed

lemma update_absent: "map_of d k = None \<Longrightarrow> AList.update k v d = d @ [(k, v)]"
  by (induction d) (auto split: if_splits)

lemma validatorKey_in_collection:
  "has_prefix (storagePrefix @ validatorsPrefix) (storagePrefix @ validatorKey pk)"
  by (simp add: has_prefix_def validatorKey_def)

lemma sint_of_nat_int64:
  assumes "n < 2 ^ 63"
  shows "sint (of_nat n :: 64 word) = int n"
proof -
  have "int n < 2 ^ 63" using assms by (simp add: of_nat_less_iff [of n "2 ^ 63", where ?'a = int, simplified])
  then show ?thesis
    by (simp add: signed_of_nat signed_take_bit_int_eq_self)
qed

lemma stored_lookup:
  assumes "stored_validators s = Inr recs"
    and "map_of (db s) (storagePrefix @ validatorKey pk) = Some raw"
  shows "\<exists>info \<in> set recs. json_Unmarshal raw = Inr info"
proof -
  have "(storagePrefix @ validatorKey pk, raw) \<in> set (db_collection (db s) (storagePrefix @ validatorsPrefix))"
    using assms(2) validatorKey_in_collection [of pk]
    by (auto simp: db_collection_def dest: map_of_SomeD)
  then have "raw \<in> set (map snd (db_collection (db s) (storagePrefix @ validatorsPrefix)))"
    by force
  with assms(1) show ?thesis
    unfolding stored_validators_def by (rule sequence_member)
qed

lemma Save_existing:
  assumes "getValidatorInformationNotSafe s (PublicKey vi) = (Some info, True, None)"
  shows "SaveValidatorInformation s vi = Return (None, s, vi\<lparr>Index := Index info\<rparr>)"
  using assms by (simp add: SaveValidatorInformation_def)

lemma get_after_set:
  "getValidatorInformationNotSafe (s\<lparr>db := AList.update (storagePrefix @ validatorKey pk) raw (db s)\<rparr>) pk
     = (case json_Unmarshal raw of
          Inl e \<Rightarrow> (Some zero_ValidatorInformation, True, Some e)
        | Inr vi \<Rightarrow> (Some vi, True, None))"
  by (simp add: getValidatorInformationNotSafe_def db_Get_def update_conv')

lemma Save_new:
  assumes "map_of (db s) (storagePrefix @ validatorKey (PublicKey vi)) = None"
  shows "SaveValidatorInformation s vi =
           Return (None,
                   s\<lparr>db := db s @ [(storagePrefix @ validatorKey (PublicKey vi),
                                    JObj [(''index'', JNum (sint (fst (nextIndex s validatorsPrefix)))),
                                          (''publicKey'', JStr (PublicKey vi)),
                                          (''operators'', JArr (map marshal_OperatorNodeLink (Operators vi)))])]\<rparr>,
                   vi\<lparr>Index := fst (nextIndex s validatorsPrefix)\<rparr>)"
  using assms
  by (simp add: SaveValidatorInformation_def getValidatorInformationNotSafe_def db_Get_def
      nextIndex_def saveValidatorNotSafe_def json_Marshal_def db_Set_def update_absent)

lemma example_stored: "stored_validators example_storage = Inr example_validators"
  by (simp add: stored_validators_def example_storage_def example_validators_def db_collection_def
      has_prefix_def storagePrefix_def validatorsPrefix_def)

lemma example_ok: "catalogue_ok example_storage"
  by (simp add: catalogue_ok_def example_stored) (simp add: example_validators_def)

lemma catalogue_ok_empty: "catalogue_ok \<lparr>db = []\<rparr>"
  by (simp add: catalogue_ok_def stored_validators_def db_collection_def)

lemma example_storage_by_saves:
  "SaveValidatorInformation \<lparr>db = []\<rparr>
       \<lparr>Index = 0, PublicKey = ''a1'', Operators = [\<lparr>ID = 1, OperatorPublicKey = ''op1''\<rparr>]\<rparr>
     = Return (None,
         \<lparr>db = [(''exporter/validators/a1'',
                  JObj [(''index'', JNum 0), (''publicKey'', JStr ''a1''),
                        (''operators'', JArr [JObj [(''nodeId'', JNum 1), (''publicKey'', JStr ''op1'')]])])]\<rparr>,
         \<lparr>Index = 0, PublicKey = ''a1'', Operators = [\<lparr>ID = 1, OperatorPublicKey = ''op1''\<rparr>]\<rparr>) \<and>
   SaveValidatorInformation
       \<lparr>db = [(''exporter/validators/a1'',
                JObj [(''index'', JNum 0), (''publicKey'', JStr ''a1''),
                      (''operators'', JArr [JObj [(''nodeId'', JNum 1), (''publicKey'', JStr ''op1'')]])])]\<rparr>
       \<lparr>Index = 0, PublicKey = ''b2'', Operators = []\<rparr>
     = Return (None, example_storage, \<lparr>Index = 1, PublicKey = ''b2'', Operators = []\<rparr>)"
  by (simp add: SaveValidatorInformation_def getValidatorInformationNotSafe_def db_Get_def
      nextIndex_def db_CountByCollection_def db_collection_def has_prefix_def saveValidatorNotSafe_def
      json_Marshal_def marshal_OperatorNodeLink_def db_Set_def storagePrefix_def validatorKey_def
      validatorsPrefix_def example_storage_def)

lemma stored_after_new:
  assumes "stored_validators s = Inr recs"
    and "map_of (db s) (storagePrefix @ validatorKey (PublicKey vi)) = None"
    and "SaveValidatorInformation s vi = Return (err, s1, vi1)"
  shows "stored_validators s1 = Inr (recs @ [vi1]) \<and>
         vi1 = vi\<lparr>Index := of_nat (length recs)\<rparr>"
proof -
  let ?n = "fst (nextIndex s validatorsPrefix)"
  have len: "length recs = db_CountByCollection (db s) (storagePrefix @ validatorsPrefix)"
    using sequence_length [OF assms(1) [unfolded stored_validators_def]]
    by (simp add: db_CountByCollection_def)
  then have n: "?n = of_nat (length recs)" by (simp add: nextIndex_def)
  from Save_new [OF assms(2)] assms(3)
  have s1: "s1 = s\<lparr>db := db s @ [(storagePrefix @ validatorKey (PublicKey vi),
                          JObj [(''index'', JNum (sint ?n)), (''publicKey'', JStr (PublicKey vi)),
                                (''operators'', JArr (map marshal_OperatorNodeLink (Operators vi)))])]\<rparr>"
    and vi1: "vi1 = vi\<lparr>Index := ?n\<rparr>"
    by simp_all
  have raw: "json_Unmarshal (JObj [(''index'', JNum (sint ?n)), (''publicKey'', JStr (PublicKey vi)),
                (''operators'', JArr (map marshal_OperatorNodeLink (Operators vi)))]) = Inr vi1"
    using json_Unmarshal_Marshal [of vi1] vi1 by (simp add: json_Marshal_def)
  have "stored_validators s1 = Inr (recs @ [vi1])"
    using assms(1) raw validatorKey_in_collection [of "PublicKey vi"]
    unfolding stored_validators_def s1
    by (simp add: db_collection_def sequence_snoc del: json_Unmarshal.simps)
  with vi1 n show ?thesis by simp
qed

text \<open>
  The invariant is kept by every save, as long as the number of entries fits an
  \<open>int64\<close>.
\<close>

lemma catalogue_ok_Save:
  assumes ok: "catalogue_ok s" and recs: "stored_validators s = Inr recs"
    and room: "Suc (length recs) < 2 ^ 63"
    and save: "SaveValidatorInformation s vi = Return (err, s1, vi1)"
  shows "catalogue_ok s1"
proof (cases "map_of (db s) (storagePrefix @ validatorKey (PublicKey vi))")
  case (Some raw)
  from stored_lookup [OF recs Some] obtain info where "json_Unmarshal raw = Inr info" by blast
  with Some have "getValidatorInformationNotSafe s (PublicKey vi) = (Some info, True, None)"
    by (simp add: getValidatorInformationNotSafe_def db_Get_def)
  from Save_existing [OF this] save have "s1 = s" by simp
  with ok show ?thesis by simp
next
  case None
  from stored_after_new [OF recs None save]
  have st: "stored_validators s1 = Inr (recs @ [vi1])"
    and vi1: "vi1 = vi\<lparr>Index := of_nat (length recs)\<rparr>" by simp_all
  have len: "length recs < 2 ^ 63" using room by simp
  have "sint (Index vi1) = int (length recs)"
    using vi1 len by (simp add: sint_of_nat_int64)
  moreover have "list_all (\<lambda>vi. sint (Index vi) < int (length recs)) recs"
    using ok recs by (simp add: catalogue_ok_def)
  then have "list_all (\<lambda>vi. sint (Index vi) < int (Suc (length recs))) recs"
    by (auto simp: list_all_iff)
  ultimately show ?thesis
    using room st by (simp add: catalogue_ok_def)
qed

subsection \<open>What a save does to the store\<close>

text \<open>
  A save whose key is present never writes: it returns the stored index, or the error
  of the decoder when the stored value is not a record.
\<close>

lemma Save_present:
  assumes "map_of (db s) (storagePrefix @ validatorKey (PublicKey vi)) = Some raw"
  shows "SaveValidatorInformation s vi =
           (case json_Unmarshal raw of
              Inl e \<Rightarrow> Return (Some (ErrWrap e ''could not read information from DB''), s, vi)
            | Inr info \<Rightarrow> Return (None, s, vi\<lparr>Index := Index info\<rparr>))"
  using assms
  by (simp add: SaveValidatorInformation_def getValidatorInformationNotSafe_def db_Get_def
      split: sum.splits)

text \<open>
  One save into a catalogue that satisfies the invariant: it returns no error, keeps the
  invariant, and the record it returns is the one a lookup of the key then finds. A key
  that was present leaves the store as it was; a key that was absent is appended with
  the number of entries as its index, above every stored index.
\<close>

lemma Save_step:
  assumes ok: "catalogue_ok s" and recs: "stored_validators s = Inr recs"
    and room: "Suc (length recs) < 2 ^ 63"
  shows "\<exists>s1 n. SaveValidatorInformation s vi = Return (None, s1, vi\<lparr>Index := n\<rparr>) \<and>
           catalogue_ok s1 \<and>
           (\<exists>stored. GetValidatorInformation s1 (PublicKey vi) = (Some stored, True, None) \<and>
                     Index stored = n) \<and>
           (fst (snd (GetValidatorInformation s (PublicKey vi))) = True \<longrightarrow>
              s1 = s \<and> stored_validators s1 = Inr recs) \<and>
           (fst (snd (GetValidatorInformation s (PublicKey vi))) = False \<longrightarrow>
              n = of_nat (length recs) \<and> (\<forall>r \<in> set recs. Index r <s n) \<and>
              stored_validators s1 = Inr (recs @ [vi\<lparr>Index := n\<rparr>]))"
proof (cases "map_of (db s) (storagePrefix @ validatorKey (PublicKey vi))")
  case (Some raw)
  from stored_lookup [OF recs Some] obtain info where info: "json_Unmarshal raw = Inr info" by blast
  have get: "getValidatorInformationNotSafe s (PublicKey vi) = (Some info, True, None)"
    using Some info by (simp add: getValidatorInformationNotSafe_def db_Get_def)
  have "SaveValidatorInformation s vi = Return (None, s, vi\<lparr>Index := Index info\<rparr>)"
    using get by (rule Save_existing)
  moreover have "GetValidatorInformation s (PublicKey vi) = (Some info, True, None)"
    using get by (simp add: GetValidatorInformation_def)
  ultimately show ?thesis using ok recs by auto
next
  case None
  let ?n = "fst (nextIndex s validatorsPrefix)"
  obtain err s1 vi1 where save: "SaveValidatorInformation s vi = Return (err, s1, vi1)"
    and err: "err = None"
    using Save_new [OF None] by blast
  from stored_after_new [OF recs None save]
  have st: "stored_validators s1 = Inr (recs @ [vi1])"
    and vi1: "vi1 = vi\<lparr>Index := of_nat (length recs)\<rparr>" by simp_all
  have ok1: "catalogue_ok s1" using ok recs room save by (rule catalogue_ok_Save)
  have len: "length recs < 2 ^ 63" using room by simp
  have n: "sint (of_nat (length recs) :: 64 word) = int (length recs)"
    using len by (rule sint_of_nat_int64)
  have "list_all (\<lambda>vi. sint (Index vi) < int (length recs)) recs"
    using ok recs by (simp add: catalogue_ok_def)
  then have above: "\<forall>r \<in> set recs. Index r <s of_nat (length recs)"
    using n by (simp add: list_all_iff word_sless_alt)
  have s1: "s1 = s\<lparr>db := AList.update (storagePrefix @ validatorKey (PublicKey vi))
                  (JObj [(''index'', JNum (sint ?n)), (''publicKey'', JStr (PublicKey vi)),
                         (''operators'', JArr (map marshal_OperatorNodeLink (Operators vi)))]) (db s)\<rparr>"
    and vn: "vi1 = vi\<lparr>Index := ?n\<rparr>"
    using Save_new [OF None] save None by (simp_all add: update_absent)
  have raw: "json_Unmarshal (JObj [(''index'', JNum (sint ?n)), (''publicKey'', JStr (PublicKey vi)),
                (''operators'', JArr (map marshal_OperatorNodeLink (Operators vi)))]) = Inr vi1"
    using json_Unmarshal_Marshal [of vi1] vn by (simp add: json_Marshal_def)
  have get1: "GetValidatorInformation s1 (PublicKey vi) = (Some vi1, True, None)"
    unfolding GetValidatorInformation_def s1 get_after_set raw by simp
  have notfound: "fst (snd (GetValidatorInformation s (PublicKey vi))) = False"
    using None by (simp add: GetValidatorInformation_def getValidatorInformationNotSafe_def db_Get_def)
  from save err vi1 ok1 get1 notfound above st show ?thesis by auto
qed

text \<open>A record that a lookup finds is one of the stored records.\<close>

lemma Get_in_stored:
  assumes "GetValidatorInformation s k = (Some r, True, None)" and "stored_validators s = Inr recs"
  shows "r \<in> set recs"
proof (cases "map_of (db s) (storagePrefix @ validatorKey k)")
  case None
  with assms(1) show ?thesis
    by (simp add: GetValidatorInformation_def getValidatorInformationNotSafe_def db_Get_def)
next
  case (Some raw)
  from stored_lookup [OF assms(2) Some] obtain info where
    i: "info \<in> set recs" "json_Unmarshal raw = Inr info" by blast
  with assms(1) Some have "r = info"
    by (simp add: GetValidatorInformation_def getValidatorInformationNotSafe_def db_Get_def)
  with i show ?thesis by simp
qed

subsection \<open>The claims about the catalogue\<close>

text \<open>
  C6. \<open>SaveValidatorInformation\<close> is idempotent on the public key. In a catalogue \<open>s\<close>
  that satisfies the invariant (the empty catalogue does, and every save keeps it), a
  save of \<open>vi\<close> returns no error and gives the argument an index \<open>n\<close>, and afterwards
  \<^item> the invariant still holds, and a lookup of the public key finds a stored record
    whose index is \<open>n\<close>: the record has been saved;
  \<^item> every later save of a record with the same public key leaves the store as it is
    and gives that same index \<open>n\<close>;
  \<^item> when the key was stored before, nothing is written;
  \<^item> when the key was not stored before, \<open>n\<close> is the number of records stored so far,
    strictly larger (as \<open>int64\<close>) than the index of every one of them, and the stored
    records are the old ones followed by \<open>vi\<close> with index \<open>n\<close>;
  \<^item> the next save of any key that is not stored then gets an index strictly larger
    than \<open>n\<close> and than every index stored in \<open>s\<close>, so no two keys share an index.

  The index of a new key comes from \<open>nextIndex\<close>, which is modelled from the spec; the
  number of entries is assumed to fit an \<open>int64\<close> with room for two more.
\<close>

theorem SaveValidatorInformation_index:
  assumes ok: "catalogue_ok s" and recs: "stored_validators s = Inr recs"
    and room: "Suc (Suc (length recs)) < 2 ^ 63"
  shows "\<exists>s1 n. SaveValidatorInformation s vi = Return (None, s1, vi\<lparr>Index := n\<rparr>) \<and>
           catalogue_ok s1 \<and>
           (\<exists>stored. GetValidatorInformation s1 (PublicKey vi) = (Some stored, True, None) \<and>
                     Index stored = n) \<and>
           (\<forall>vi'. PublicKey vi' = PublicKey vi \<longrightarrow>
                  SaveValidatorInformation s1 vi' = Return (None, s1, vi'\<lparr>Index := n\<rparr>)) \<and>
           (fst (snd (GetValidatorInformation s (PublicKey vi))) = True \<longrightarrow> s1 = s) \<and>
           (fst (snd (GetValidatorInformation s (PublicKey vi))) = False \<longrightarrow>
              n = of_nat (length recs) \<and> (\<forall>r \<in> set recs. Index r <s n) \<and>
              stored_validators s1 = Inr (recs @ [vi\<lparr>Index := n\<rparr>])) \<and>
           (\<forall>vi2. fst (snd (GetValidatorInformation s1 (PublicKey vi2))) = False \<longrightarrow>
              (\<exists>s2 n2. SaveValidatorInformation s1 vi2 = Return (None, s2, vi2\<lparr>Index := n2\<rparr>) \<and>
                       n <s n2 \<and> (\<forall>r \<in> set recs. Index r <s n2)))"
proof -
  have room1: "Suc (length recs) < 2 ^ 63" using room by simp
  from Save_step [OF ok recs room1, of vi] obtain s1 n stored where
    save: "SaveValidatorInformation s vi = Return (None, s1, vi\<lparr>Index := n\<rparr>)" and
    ok1: "catalogue_ok s1" and
    get1: "GetValidatorInformation s1 (PublicKey vi) = (Some stored, True, None)" and
    idx: "Index stored = n" and
    old: "fst (snd (GetValidatorInformation s (PublicKey vi))) = True \<longrightarrow>
            s1 = s \<and> stored_validators s1 = Inr recs" and
    new: "fst (snd (GetValidatorInformation s (PublicKey vi))) = False \<longrightarrow>
            n = of_nat (length recs) \<and> (\<forall>r \<in> set recs. Index r <s n) \<and>
            stored_validators s1 = Inr (recs @ [vi\<lparr>Index := n\<rparr>])"
    by blast
  obtain recs1 where recs1: "stored_validators s1 = Inr recs1"
    and grow: "set recs \<subseteq> set recs1" and len1: "length recs1 \<le> Suc (length recs)"
  proof (cases "fst (snd (GetValidatorInformation s (PublicKey vi)))")
    case True
    with old have "stored_validators s1 = Inr recs" by blast
    then show ?thesis using that [of recs] by simp
  next
    case False
    with new have "stored_validators s1 = Inr (recs @ [vi\<lparr>Index := n\<rparr>])" by blast
    then show ?thesis using that [of "recs @ [vi\<lparr>Index := n\<rparr>]"] by auto
  qed
  have again: "\<forall>vi'. PublicKey vi' = PublicKey vi \<longrightarrow>
                  SaveValidatorInformation s1 vi' = Return (None, s1, vi'\<lparr>Index := n\<rparr>)"
  proof (intro allI impI)
    fix vi' :: ValidatorInformation
    assume "PublicKey vi' = PublicKey vi"
    with get1 have "getValidatorInformationNotSafe s1 (PublicKey vi') = (Some stored, True, None)"
      by (simp add: GetValidatorInformation_def)
    from Save_existing [OF this] idx
    show "SaveValidatorInformation s1 vi' = Return (None, s1, vi'\<lparr>Index := n\<rparr>)" by simp
  qed
  have room2: "Suc (length recs1) < 2 ^ 63" using room len1 by simp
  have next_new: "\<exists>s2 n2. SaveValidatorInformation s1 vi2 = Return (None, s2, vi2\<lparr>Index := n2\<rparr>) \<and>
                       n <s n2 \<and> (\<forall>r \<in> set recs. Index r <s n2)"
    if nf: "fst (snd (GetValidatorInformation s1 (PublicKey vi2))) = False" for vi2
  proof -
    from Save_step [OF ok1 recs1 room2, of vi2] nf obtain s2 n2 where
      s2: "SaveValidatorInformation s1 vi2 = Return (None, s2, vi2\<lparr>Index := n2\<rparr>)" and
      above: "\<forall>r \<in> set recs1. Index r <s n2"
      by blast
    from Get_in_stored [OF get1 recs1] above idx have "n <s n2" by blast
    with s2 above grow show ?thesis by blast
  qed
  from save ok1 get1 idx again old new next_new show ?thesis by blast
qed

theorem SaveValidatorInformation_index_witness:
  "catalogue_ok example_storage \<and> stored_validators example_storage = Inr example_validators \<and>
   Suc (Suc (length example_validators)) < 2 ^ 63 \<and>
   fst (snd (GetValidatorInformation example_storage ''c3'')) = False \<and>
   (\<exists>s1. SaveValidatorInformation example_storage \<lparr>Index = 7, PublicKey = ''c3'', Operators = []\<rparr>
             = Return (None, s1, \<lparr>Index = 2, PublicKey = ''c3'', Operators = []\<rparr>) \<and>
          catalogue_ok s1 \<and>
          stored_validators s1
            = Inr (example_validators @ [\<lparr>Index = 2, PublicKey = ''c3'', Operators = []\<rparr>]) \<and>
          SaveValidatorInformation s1 \<lparr>Index = 9, PublicKey = ''c3'', Operators = []\<rparr>
            = Return (None, s1, \<lparr>Index = 2, PublicKey = ''c3'', Operators = []\<rparr>) \<and>
          fst (snd (GetValidatorInformation s1 ''d4'')) = False \<and>
          (\<exists>s2 n2. SaveValidatorInformation s1 \<lparr>Index = 0, PublicKey = ''d4'', Operators = []\<rparr>
                     = Return (None, s2, \<lparr>Index = n2, PublicKey = ''d4'', Operators = []\<rparr>) \<and>
                   2 <s n2))"
proof -
  let ?vi = "\<lparr>Index = 7, PublicKey = ''c3'', Operators = []\<rparr> :: ValidatorInformation"
  let ?vi' = "\<lparr>Index = 9, PublicKey = ''c3'', Operators = []\<rparr> :: ValidatorInformation"
  let ?vi2 = "\<lparr>Index = 0, PublicKey = ''d4'', Operators = []\<rparr> :: ValidatorInformation"
  have room: "Suc (Suc (length example_validators)) < 2 ^ 63"
    by (simp add: example_validators_def)
  have absent: "fst (snd (GetValidatorInformation example_storage (PublicKey ?vi))) = False"
    by (simp add: GetValidatorInformation_def getValidatorInformationNotSafe_def db_Get_def
        example_storage_def storagePrefix_def validatorKey_def validatorsPrefix_def)
  from SaveValidatorInformation_index [OF example_ok example_stored room, of ?vi]
  obtain s1 n where
    a: "SaveValidatorInformation example_storage ?vi = Return (None, s1, ?vi\<lparr>Index := n\<rparr>)" and
    ok1: "catalogue_ok s1" and
    b: "\<forall>vi'. PublicKey vi' = PublicKey ?vi \<longrightarrow>
              SaveValidatorInformation s1 vi' = Return (None, s1, vi'\<lparr>Index := n\<rparr>)" and
    c: "fst (snd (GetValidatorInformation example_storage (PublicKey ?vi))) = False \<longrightarrow>
              n = of_nat (length example_validators) \<and> (\<forall>r \<in> set example_validators. Index r <s n) \<and>
              stored_validators s1 = Inr (example_validators @ [?vi\<lparr>Index := n\<rparr>])" and
    d: "\<forall>vi2. fst (snd (GetValidatorInformation s1 (PublicKey vi2))) = False \<longrightarrow>
              (\<exists>s2 n2. SaveValidatorInformation s1 vi2 = Return (None, s2, vi2\<lparr>Index := n2\<rparr>) \<and>
                       n <s n2 \<and> (\<forall>r \<in> set example_validators. Index r <s n2))"
    by blast
  from c absent have n: "n = 2"
    and st: "stored_validators s1 = Inr (example_validators @ [?vi\<lparr>Index := n\<rparr>])"
    by (simp_all add: example_validators_def)
  have s1: "s1 = \<lparr>db = db example_storage @
                    [(''exporter/validators/c3'',
                      JObj [(''index'', JNum 2), (''publicKey'', JStr ''c3''), (''operators'', JArr [])])]\<rparr>"
    using a
    by (simp add: SaveValidatorInformation_def getValidatorInformationNotSafe_def db_Get_def
        nextIndex_def db_CountByCollection_def db_collection_def has_prefix_def saveValidatorNotSafe_def
        json_Marshal_def db_Set_def storagePrefix_def validatorKey_def validatorsPrefix_def
        example_storage_def)
  have absent2: "fst (snd (GetValidatorInformation s1 (PublicKey ?vi2))) = False"
    unfolding s1
    by (simp add: GetValidatorInformation_def getValidatorInformationNotSafe_def db_Get_def
        example_storage_def storagePrefix_def validatorKey_def validatorsPrefix_def)
  from b have b': "SaveValidatorInformation s1 ?vi' = Return (None, s1, ?vi'\<lparr>Index := n\<rparr>)"
    by simp
  from d absent2 obtain s2 n2 where
    e: "SaveValidatorInformation s1 ?vi2 = Return (None, s2, ?vi2\<lparr>Index := n2\<rparr>)" and f: "n <s n2"
    by blast
  from a b' st e f n absent absent2 ok1 room example_ok example_stored show ?thesis
    by auto
qed

text \<open>
  C7. When every stored value decodes to the records \<open>recs\<close>, \<open>ListValidators(from, 0)\<close>
  returns exactly the records with \<open>from \<le> index\<close>, and for \<open>to > 0\<close>,
  \<open>ListValidators(from, to)\<close> returns exactly the records with \<open>from \<le> index \<le> to\<close>;
  both in the order of the store and with a nil error. The treatment of \<open>to = 0\<close> is
  that of \<open>normalTo\<close>, which is modelled from the spec.
\<close>

theorem ListValidators_range:
  assumes "stored_validators s = Inr recs"
  shows "ListValidators s from 0 = (filter (\<lambda>vi. from \<le>s Index vi) recs, None) \<and>
         (0 <s to \<longrightarrow>
            ListValidators s from to =
              (filter (\<lambda>vi. from \<le>s Index vi \<and> Index vi \<le>s to) recs, None))"
proof -
  have "0 <s to \<Longrightarrow> to \<noteq> 0" by (auto simp: word_sless_alt)
  then show ?thesis
  using ListValidators_filter [OF assms] by (auto simp: normalTo_def sle_MaxInt64)
qed

theorem ListValidators_range_witness:
  "stored_validators example_storage = Inr example_validators \<and>
   ListValidators example_storage 1 0 = ([\<lparr>Index = 1, PublicKey = ''b2'', Operators = []\<rparr>], None) \<and>
   (0 :: 64 word) <s 1 \<and>
   ListValidators example_storage 0 1 = (example_validators, None)"
proof -
  have pos: "(0 :: 64 word) <s 1" by (simp add: word_sless_alt)
  from ListValidators_range [OF example_stored, of 1 1] pos
  have "ListValidators example_storage 1 0 = (filter (\<lambda>vi. 1 \<le>s Index vi) example_validators, None)"
    by blast
  moreover from ListValidators_range [OF example_stored, of 0 1] pos
  have "ListValidators example_storage 0 1
          = (filter (\<lambda>vi. 0 \<le>s Index vi \<and> Index vi \<le>s 1) example_validators, None)"
    by blast
  ultimately show ?thesis
    using pos example_stored by (simp add: example_validators_def word_sle_eq)
qed

text \<open>
  C9. When the public key of the argument is already present in the store,
  \<open>SaveValidatorInformation\<close> writes nothing: the storage it leaves is the storage it
  was given, so the operators of the argument are not stored. When the stored value
  decodes to a record, the call returns nil and the argument comes back with its
  \<open>Index\<close> field set to the stored index and every other field as it was. When the
  stored value does not decode, the call returns the error of the decoder wrapped with
  \<open>could not read information from DB\<close> and the argument comes back untouched.
\<close>

theorem SaveValidatorInformation_existing:
  assumes "fst (db_Get (db s) storagePrefix (validatorKey (PublicKey vi))) = Some raw"
  shows "(\<forall>info. json_Unmarshal raw = Inr info \<longrightarrow>
            SaveValidatorInformation s vi = Return (None, s, vi\<lparr>Index := Index info\<rparr>)) \<and>
         (\<forall>e. json_Unmarshal raw = Inl e \<longrightarrow>
            SaveValidatorInformation s vi
              = Return (Some (ErrWrap e ''could not read information from DB''), s, vi))"
proof -
  from assms have "map_of (db s) (storagePrefix @ validatorKey (PublicKey vi)) = Some raw"
    by (simp add: db_Get_def)
  from Save_present [OF this] show ?thesis by simp
qed

theorem SaveValidatorInformation_existing_witness:
  "fst (db_Get (db example_storage) storagePrefix (validatorKey ''b2''))
     = Some (JObj [(''index'', JNum 1), (''publicKey'', JStr ''b2''), (''operators'', JArr [])]) \<and>
   json_Unmarshal (JObj [(''index'', JNum 1), (''publicKey'', JStr ''b2''), (''operators'', JArr [])])
     = Inr \<lparr>Index = 1, PublicKey = ''b2'', Operators = []\<rparr> \<and>
   SaveValidatorInformation example_storage
       \<lparr>Index = 5, PublicKey = ''b2'', Operators = [\<lparr>ID = 4, OperatorPublicKey = ''op4''\<rparr>]\<rparr>
     = Return (None, example_storage,
               \<lparr>Index = 1, PublicKey = ''b2'', Operators = [\<lparr>ID = 4, OperatorPublicKey = ''op4''\<rparr>]\<rparr>) \<and>
   fst (db_Get (db corrupt_storage) storagePrefix (validatorKey ''b2'')) = Some (JArr []) \<and>
   json_Unmarshal (JArr []) = Inl json_type_error \<and>
   SaveValidatorInformation corrupt_storage
       \<lparr>Index = 5, PublicKey = ''b2'', Operators = [\<lparr>ID = 4, OperatorPublicKey = ''op4''\<rparr>]\<rparr>
     = Return (Some (ErrWrap json_type_error ''could not read information from DB''), corrupt_storage,
               \<lparr>Index = 5, PublicKey = ''b2'', Operators = [\<lparr>ID = 4, OperatorPublicKey = ''op4''\<rparr>]\<rparr>)"
proof -
  let ?vi = "\<lparr>Index = 5, PublicKey = ''b2'', Operators = [\<lparr>ID = 4, OperatorPublicKey = ''op4''\<rparr>]\<rparr>"
  let ?raw = "JObj [(''index'', JNum 1), (''publicKey'', JStr ''b2''), (''operators'', JArr [])]"
  have g: "fst (db_Get (db example_storage) storagePrefix (validatorKey (PublicKey ?vi))) = Some ?raw"
    by (simp add: db_Get_def example_storage_def storagePrefix_def validatorKey_def validatorsPrefix_def)
  have u: "json_Unmarshal ?raw = Inr \<lparr>Index = 1, PublicKey = ''b2'', Operators = []\<rparr>"
    by simp
  have g': "fst (db_Get (db corrupt_storage) storagePrefix (validatorKey (PublicKey ?vi))) = Some (JArr [])"
    by (simp add: db_Get_def corrupt_storage_def storagePrefix_def validatorKey_def validatorsPrefix_def)
  have u': "json_Unmarshal (JArr []) = Inl json_type_error" by simp
  from SaveValidatorInformation_existing [OF g] SaveValidatorInformation_existing [OF g'] u u' g g'
  show ?thesis by simp
qed

text \<open>
  C9, for every call whose public key is present: in a store whose value under the key
  of \<open>b2\<close> is a JSON array, the key is present, and a save of \<open>b2\<close> returns the wrapped
  error of the decoder instead of nil and leaves \<open>Index\<close> of the argument at 5.
\<close>

theorem SaveValidatorInformation_undecodable:
  "fst (db_Get (db corrupt_storage) storagePrefix (validatorKey ''b2'')) = Some (JArr []) \<and>
   SaveValidatorInformation corrupt_storage \<lparr>Index = 5, PublicKey = ''b2'', Operators = []\<rparr>
     = Return (Some (ErrWrap (ErrNew ''json: cannot unmarshal value into Go struct field'')
                             ''could not read information from DB''),
               corrupt_storage, \<lparr>Index = 5, PublicKey = ''b2'', Operators = []\<rparr>)"
  by (simp add: SaveValidatorInformation_def getValidatorInformationNotSafe_def db_Get_def
      corrupt_storage_def storagePrefix_def validatorKey_def validatorsPrefix_def json_type_error_def)

section \<open>Properties of the signer storage\<close>

subsection \<open>The derived key and the length guard\<close>

lemma length_octets32: "length (octets32 w) = 4"
  by (simp add: octets32_def)

lemma length_md5_Sum: "length (md5_Sum msg) = 16"
  by (cases "md5_blocks (md5_pad (map octet msg))") (simp add: md5_Sum_def length_octets32)

lemma length_hex: "length (hex_EncodeToString bs) = 2 * length bs"
  by (induction bs) (simp_all add: hex_EncodeToString_def)

lemma length_createHash: "length (createHash key) = 32"
  by (simp add: createHash_def length_hex length_md5_Sum)

lemma NewCipher_createHash: "aes_NewCipher (createHash key) = Inr (createHash key)"
  by (simp add: aes_NewCipher_def length_createHash)

lemma decrypt_short:
  "length data < NonceSize \<Longrightarrow> decrypt L data passphrase = Return (Inl (ErrNew ''malformed ciphertext''))"
  by (simp add: decrypt_def NewCipher_createHash cipher_NewGCM_def)

lemma decrypt_long:
  "NonceSize \<le> length data \<Longrightarrow>
   decrypt L data passphrase =
     Return (case Open L (createHash passphrase) (take NonceSize data) (drop NonceSize data) of
               None \<Rightarrow> Inl (ErrNew ''cipher: message authentication failed'')
             | Some plaintext \<Rightarrow> Inr plaintext)"
  by (simp add: decrypt_def NewCipher_createHash cipher_NewGCM_def slice_to_def slice_from_def
      gcm_Open_def split: option.splits)

lemma encrypt_enough:
  "NonceSize \<le> length rnd \<Longrightarrow>
   encrypt L rnd data passphrase =
     Return (Inr (take NonceSize rnd @ Seal L (createHash passphrase) (take NonceSize rnd) data))"
  by (simp add: encrypt_def NewCipher_createHash cipher_NewGCM_def io_ReadFull_def gcm_Seal_def)

lemma encrypt_starved:
  "length rnd < NonceSize \<Longrightarrow> encrypt L rnd data passphrase = Return (Inl (ErrNew ''unexpected EOF''))"
  by (simp add: encrypt_def NewCipher_createHash cipher_NewGCM_def io_ReadFull_def)

text \<open>
  C10. For every input shorter than the nonce size, \<open>decrypt\<close> returns the error
  "malformed ciphertext"; and for every input at all it returns (a value or an error)
  and does not panic: the slices \<open>data[:nonceSize]\<close> and \<open>data[nonceSize:]\<close> and the
  nonce handed to \<open>Open\<close> are only reached behind the length check.
\<close>

theorem decrypt_total:
  "(length data < NonceSize \<longrightarrow>
      decrypt L data passphrase = Return (Inl (ErrNew ''malformed ciphertext''))) \<and>
   (\<exists>r. decrypt L data passphrase = Return r)"
proof (cases "length data < NonceSize")
  case True
  then show ?thesis by (simp add: decrypt_short)
next
  case False
  then have "NonceSize \<le> length data" by simp
  from decrypt_long [OF this] show ?thesis using False by simp
qed

theorem decrypt_total_witness:
  "length ''short'' < NonceSize \<and>
   decrypt demo_lib ''short'' ''secret'' = Return (Inl (ErrNew ''malformed ciphertext'')) \<and>
   (\<exists>r. decrypt demo_lib ''short'' ''secret'' = Return r)"
  using decrypt_total [of "''short''" demo_lib "''secret''"] by (simp add: NonceSize_def)

subsection \<open>The highest proposal\<close>

lemma length_le_bytes: "length (le_bytes k n) = k"
  by (induction k arbitrary: n) simp_all

lemma le_value_le_bytes: "le_value (le_bytes k n) = n mod 256 ^ k"
proof (induction k arbitrary: n)
  case 0
  then show ?case by simp
next
  case (Suc k)
  have "le_value (le_bytes (Suc k) n) = n mod 256 + 256 * (n div 256 mod 256 ^ k)"
    by (simp add: Suc of_char_of)
  also have "\<dots> = n mod (256 * 256 ^ k)"
    by (simp add: mod_mult2_eq)
  finally show ?case by simp
qed

lemma ssz_roundtrip: "ssz_UnmarshallUint64 (ssz_MarshalUint64 [] i) = Return i"
proof -
  have "unat i < 2 ^ 64" using unsigned_less [of i, where ?'a = nat] by simp
  then have "unat i mod 256 ^ 8 = unat i" by simp
  then show ?thesis
    by (simp add: ssz_UnmarshallUint64_def ssz_MarshalUint64_def length_le_bytes le_value_le_bytes)
qed

lemma db_Get_Set: "db_Get (snd (db_Set d p k v)) p k = (Some v, None)"
  by (simp add: db_Get_def db_Set_def update_conv')

text \<open>
  C5. For every storage and every non-nil public key, \<open>SaveHighestProposal(pubKey, 0)\<close>
  returns the invalid-slot error and leaves the storage as it was; and
  \<open>SaveHighestProposal(pubKey, 100)\<close> returns nil, after which
  \<open>RetrieveHighestProposal(pubKey)\<close> returns \<open>(100, true, nil)\<close>.
\<close>

theorem HighestProposal_scenario:
  "SaveHighestProposal s (Some pk) 0
     = (Some (ErrNew ''invalid proposal slot, slot could not be 0''), s) \<and>
   (\<exists>s'. SaveHighestProposal s (Some pk) 100 = (None, s') \<and>
         RetrieveHighestProposal s' (Some pk) = Return (100, True, None))"
proof -
  have len: "length (ssz_MarshalUint64 [] (100 :: 64 word)) \<noteq> 0"
    by (simp add: ssz_MarshalUint64_def length_le_bytes)
  let ?s' = "s\<lparr>ekm_db := snd (db_Set (ekm_db s) (objPrefix s highestProposalPrefix) pk
                                 (ssz_MarshalUint64 [] 100))\<rparr>"
  have save: "SaveHighestProposal s (Some pk) 100 = (None, ?s')"
    by (simp add: SaveHighestProposal_def db_Set_def)
  have "objPrefix ?s' highestProposalPrefix = objPrefix s highestProposalPrefix"
    by (simp add: objPrefix_def)
  then have "RetrieveHighestProposal ?s' (Some pk) = Return (100, True, None)"
    using len by (simp add: RetrieveHighestProposal_def db_Get_Set ssz_roundtrip)
  with save show ?thesis by (simp add: SaveHighestProposal_def)
qed

subsection \<open>Evaluating the digest\<close>

text \<open>
  The sixty-four steps of a block with the tables looked up, and the rotation with its
  argument reduced first, so that the simplifier computes a block on numerals.
\<close>

lemma upt64: "[0..<64] = [0,1,2,3,4,5,6,7,8,9,10,11,12,13,14,15,16,17,18,19,20,21,22,23,24,25,26,27,28,29,30,31,32,33,34,35,36,37,38,39,40,41,42,43,44,45,46,47,48,49,50,51,52,53,54,55,56,57,58,59,60,61,62,63]"
  by (simp add: upt_rec)

lemma rotl32_eval: "rotl32 n w = push_bit n (take_bit (32 - n) w) OR drop_bit (32 - n) w"
  unfolding rotl32_def by (rule bit_word_eqI) (auto simp add: bit_simps)

lemma md5_step_unrolled:
  "md5_step M (a, b, c, d) (0) = (d, b + rotl32 7 (((b AND c) OR (NOT b AND d)) + a + 0xd76aa478 + M ! 0), b, c)"
  "md5_step M (a, b, c, d) (Suc 0) = (d, b + rotl32 12 (((b AND c) OR (NOT b AND d)) + a + 0xe8c7b756 + M ! 1), b, c)"
  "md5_step M (a, b, c, d) (2) = (d, b + rotl32 17 (((b AND c) OR (NOT b AND d)) + a + 0x242070db + M ! 2), b, c)"
  "md5_step M (a, b, c, d) (3) = (d, b + rotl32 22 (((b AND c) OR (NOT b AND d)) + a + 0xc1bdceee + M ! 3), b, c)"
  "md5_step M (a, b, c, d) (4) = (d, b + rotl32 7 (((b AND c) OR (NOT b AND d)) + a + 0xf57c0faf + M ! 4), b, c)"
  "md5_step M (a, b, c, d) (5) = (d, b + rotl32 12 (((b AND c) OR (NOT b AND d)) + a + 0x4787c62a + M ! 5), b, c)"
  "md5_step M (a, b, c, d) (6) = (d, b + rotl32 17 (((b AND c) OR (NOT b AND d)) + a + 0xa8304613 + M ! 6), b, c)"
  "md5_step M (a, b, c, d) (7) = (d, b + rotl32 22 (((b AND c) OR (NOT b AND d)) + a + 0xfd469501 + M ! 7), b, c)"
  "md5_step M (a, b, c, d) (8) = (d, b + rotl32 7 (((b AND c) OR (NOT b AND d)) + a + 0x698098d8 + M ! 8), b, c)"
  "md5_step M (a, b, c, d) (9) = (d, b + rotl32 12 (((b AND c) OR (NOT b AND d)) + a + 0x8b44f7af + M ! 9), b, c)"
  "md5_step M (a, b, c, d) (10) = (d, b + rotl32 17 (((b AND c) OR (NOT b AND d)) + a + 0xffff5bb1 + M ! 10), b, c)"
  "md5_step M (a, b, c, d) (11) = (d, b + rotl32 22 (((b AND c) OR (NOT b AND d)) + a + 0x895cd7be + M ! 11), b, c)"
  "md5_step M (a, b, c, d) (12) = (d, b + rotl32 7 (((b AND c) OR (NOT b AND d)) + a + 0x6b901122 + M ! 12), b, c)"
  "md5_step M (a, b, c, d) (13) = (d, b + rotl32 12 (((b AND c) OR (NOT b AND d)) + a + 0xfd987193 + M ! 13), b, c)"
  "md5_step M (a, b, c, d) (14) = (d, b + rotl32 17 (((b AND c) OR (NOT b AND d)) + a + 0xa679438e + M ! 14), b, c)"
  "md5_step M (a, b, c, d) (15) = (d, b + rotl32 22 (((b AND c) OR (NOT b AND d)) + a + 0x49b40821 + M ! 15), b, c)"
  "md5_step M (a, b, c, d) (16) = (d, b + rotl32 5 (((d AND b) OR (NOT d AND c)) + a + 0xf61e2562 + M ! 1), b, c)"
  "md5_step M (a, b, c, d) (17) = (d, b + rotl32 9 (((d AND b) OR (NOT d AND c)) + a + 0xc040b340 + M ! 6), b, c)"
  "md5_step M (a, b, c, d) (18) = (d, b + rotl32 14 (((d AND b) OR (NOT d AND c)) + a + 0x265e5a51 + M ! 11), b, c)"
  "md5_step M (a, b, c, d) (19) = (d, b + rotl32 20 (((d AND b) OR (NOT d AND c)) + a + 0xe9b6c7aa + M ! 0), b, c)"
  "md5_step M (a, b, c, d) (20) = (d, b + rotl32 5 (((d AND b) OR (NOT d AND c)) + a + 0xd62f105d + M ! 5), b, c)"
  "md5_step M (a, b, c, d) (21) = (d, b + rotl32 9 (((d AND b) OR (NOT d AND c)) + a + 0x02441453 + M ! 10), b, c)"
  "md5_step M (a, b, c, d) (22) = (d, b + rotl32 14 (((d AND b) OR (NOT d AND c)) + a + 0xd8a1e681 + M ! 15), b, c)"
  "md5_step M (a, b, c, d) (23) = (d, b + rotl32 20 (((d AND b) OR (NOT d AND c)) + a + 0xe7d3fbc8 + M ! 4), b, c)"
  "md5_step M (a, b, c, d) (24) = (d, b + rotl32 5 (((d AND b) OR (NOT d AND c)) + a + 0x21e1cde6 + M ! 9), b, c)"
  "md5_step M (a, b, c, d) (25) = (d, b + rotl32 9 (((d AND b) OR (NOT d AND c)) + a + 0xc33707d6 + M ! 14), b, c)"
  "md5_step M (a, b, c, d) (26) = (d, b + rotl32 14 (((d AND b) OR (NOT d AND c)) + a + 0xf4d50d87 + M ! 3), b, c)"
  "md5_step M (a, b, c, d) (27) = (d, b + rotl32 20 (((d AND b) OR (NOT d AND c)) + a + 0x455a14ed + M ! 8), b, c)"
  "md5_step M (a, b, c, d) (28) = (d, b + rotl32 5 (((d AND b) OR (NOT d AND c)) + a + 0xa9e3e905 + M ! 13), b, c)"
  "md5_step M (a, b, c, d) (29) = (d, b + rotl32 9 (((d AND b) OR (NOT d AND c)) + a + 0xfcefa3f8 + M ! 2), b, c)"
  "md5_step M (a, b, c, d) (30) = (d, b + rotl32 14 (((d AND b) OR (NOT d AND c)) + a + 0x676f02d9 + M ! 7), b, c)"
  "md5_step M (a, b, c, d) (31) = (d, b + rotl32 20 (((d AND b) OR (NOT d AND c)) + a + 0x8d2a4c8a + M ! 12), b, c)"
  "md5_step M (a, b, c, d) (32) = (d, b + rotl32 4 ((b XOR c XOR d) + a + 0xfffa3942 + M ! 5), b, c)"
  "md5_step M (a, b, c, d) (33) = (d, b + rotl32 11 ((b XOR c XOR d) + a + 0x8771f681 + M ! 8), b, c)"
  "md5_step M (a, b, c, d) (34) = (d, b + rotl32 16 ((b XOR c XOR d) + a + 0x6d9d6122 + M ! 11), b, c)"
  "md5_step M (a, b, c, d) (35) = (d, b + rotl32 23 ((b XOR c XOR d) + a + 0xfde5380c + M ! 14), b, c)"
  "md5_step M (a, b, c, d) (36) = (d, b + rotl32 4 ((b XOR c XOR d) + a + 0xa4beea44 + M ! 1), b, c)"
  "md5_step M (a, b, c, d) (37) = (d, b + rotl32 11 ((b XOR c XOR d) + a + 0x4bdecfa9 + M ! 4), b, c)"
  "md5_step M (a, b, c, d) (38) = (d, b + rotl32 16 ((b XOR c XOR d) + a + 0xf6bb4b60 + M ! 7), b, c)"
  "md5_step M (a, b, c, d) (39) = (d, b + rotl32 23 ((b XOR c XOR d) + a + 0xbebfbc70 + M ! 10), b, c)"
  "md5_step M (a, b, c, d) (40) = (d, b + rotl32 4 ((b XOR c XOR d) + a + 0x289b7ec6 + M ! 13), b, c)"
  "md5_step M (a, b, c, d) (41) = (d, b + rotl32 11 ((b XOR c XOR d) + a + 0xeaa127fa + M ! 0), b, c)"
  "md5_step M (a, b, c, d) (42) = (d, b + rotl32 16 ((b XOR c XOR d) + a + 0xd4ef3085 + M ! 3), b, c)"
  "md5_step M (a, b, c, d) (43) = (d, b + rotl32 23 ((b XOR c XOR d) + a + 0x04881d05 + M ! 6), b, c)"
  "md5_step M (a, b, c, d) (44) = (d, b + rotl32 4 ((b XOR c XOR d) + a + 0xd9d4d039 + M ! 9), b, c)"
  "md5_step M (a, b, c, d) (45) = (d, b + rotl32 11 ((b XOR c XOR d) + a + 0xe6db99e5 + M ! 12), b, c)"
  "md5_step M (a, b, c, d) (46) = (d, b + rotl32 16 ((b XOR c XOR d) + a + 0x1fa27cf8 + M ! 15), b, c)"
  "md5_step M (a, b, c, d) (47) = (d, b + rotl32 23 ((b XOR c XOR d) + a + 0xc4ac5665 + M ! 2), b, c)"
  "md5_step M (a, b, c, d) (48) = (d, b + rotl32 6 ((c XOR (b OR NOT d)) + a + 0xf4292244 + M ! 0), b, c)"
  "md5_step M (a, b, c, d) (49) = (d, b + rotl32 10 ((c XOR (b OR NOT d)) + a + 0x432aff97 + M ! 7), b, c)"
  "md5_step M (a, b, c, d) (50) = (d, b + rotl32 15 ((c XOR (b OR NOT d)) + a + 0xab9423a7 + M ! 14), b, c)"
  "md5_step M (a, b, c, d) (51) = (d, b + rotl32 21 ((c XOR (b OR NOT d)) + a + 0xfc93a039 + M ! 5), b, c)"
  "md5_step M (a, b, c, d) (52) = (d, b + rotl32 6 ((c XOR (b OR NOT d)) + a + 0x655b59c3 + M ! 12), b, c)"
  "md5_step M (a, b, c, d) (53) = (d, b + rotl32 10 ((c XOR (b OR NOT d)) + a + 0x8f0ccc92 + M ! 3), b, c)"
  "md5_step M (a, b, c, d) (54) = (d, b + rotl32 15 ((c XOR (b OR NOT d)) + a + 0xffeff47d + M ! 10), b, c)"
  "md5_step M (a, b, c, d) (55) = (d, b + rotl32 21 ((c XOR (b OR NOT d)) + a + 0x85845dd1 + M ! 1), b, c)"
  "md5_step M (a, b, c, d) (56) = (d, b + rotl32 6 ((c XOR (b OR NOT d)) + a + 0x6fa87e4f + M ! 8), b, c)"
  "md5_step M (a, b, c, d) (57) = (d, b + rotl32 10 ((c XOR (b OR NOT d)) + a + 0xfe2ce6e0 + M ! 15), b, c)"
  "md5_step M (a, b, c, d) (58) = (d, b + rotl32 15 ((c XOR (b OR NOT d)) + a + 0xa3014314 + M ! 6), b, c)"
  "md5_step M (a, b, c, d) (59) = (d, b + rotl32 21 ((c XOR (b OR NOT d)) + a + 0x4e0811a1 + M ! 13), b, c)"
  "md5_step M (a, b, c, d) (60) = (d, b + rotl32 6 ((c XOR (b OR NOT d)) + a + 0xf7537e82 + M ! 4), b, c)"
  "md5_step M (a, b, c, d) (61) = (d, b + rotl32 10 ((c XOR (b OR NOT d)) + a + 0xbd3af235 + M ! 11), b, c)"
  "md5_step M (a, b, c, d) (62) = (d, b + rotl32 15 ((c XOR (b OR NOT d)) + a + 0x2ad7d2bb + M ! 2), b, c)"
  "md5_step M (a, b, c, d) (63) = (d, b + rotl32 21 ((c XOR (b OR NOT d)) + a + 0xeb86d391 + M ! 9), b, c)"
  by (simp_all add: md5_K_def md5_s_def md5_F_def md5_g_def)

lemma replicate_55: "replicate 55 (0 :: 8 word) =
     [0x00, 0x00, 0x00, 0x00, 0x00, 0x00, 0x00, 0x00, 0x00, 0x00, 0x00, 0x00, 0x00, 0x00, 0x00, 0x00,
      0x00, 0x00, 0x00, 0x00, 0x00, 0x00, 0x00, 0x00, 0x00, 0x00, 0x00, 0x00, 0x00, 0x00, 0x00, 0x00,
      0x00, 0x00, 0x00, 0x00, 0x00, 0x00, 0x00, 0x00, 0x00, 0x00, 0x00, 0x00, 0x00, 0x00, 0x00, 0x00,
      0x00, 0x00, 0x00, 0x00, 0x00, 0x00, 0x00]"
  by (simp add: numeral_eq_Suc)

text \<open>The two passphrases: their bytes, the padded message and the three blocks of each.\<close>

lemma octets_a: "map octet collision_a =
     [0xd1, 0x31, 0xdd, 0x02, 0xc5, 0xe6, 0xee, 0xc4, 0x69, 0x3d, 0x9a, 0x06, 0x98, 0xaf, 0xf9, 0x5c,
      0x2f, 0xca, 0xb5, 0x87, 0x12, 0x46, 0x7e, 0xab, 0x40, 0x04, 0x58, 0x3e, 0xb8, 0xfb, 0x7f, 0x89,
      0x55, 0xad, 0x34, 0x06, 0x09, 0xf4, 0xb3, 0x02, 0x83, 0xe4, 0x88, 0x83, 0x25, 0x71, 0x41, 0x5a,
      0x08, 0x51, 0x25, 0xe8, 0xf7, 0xcd, 0xc9, 0x9f, 0xd9, 0x1d, 0xbd, 0xf2, 0x80, 0x37, 0x3c, 0x5b,
      0xd8, 0x82, 0x3e, 0x31, 0x56, 0x34, 0x8f, 0x5b, 0xae, 0x6d, 0xac, 0xd4, 0x36, 0xc9, 0x19, 0xc6,
      0xdd, 0x53, 0xe2, 0xb4, 0x87, 0xda, 0x03, 0xfd, 0x02, 0x39, 0x63, 0x06, 0xd2, 0x48, 0xcd, 0xa0,
      0xe9, 0x9f, 0x33, 0x42, 0x0f, 0x57, 0x7e, 0xe8, 0xce, 0x54, 0xb6, 0x70, 0x80, 0xa8, 0x0d, 0x1e,
      0xc6, 0x98, 0x21, 0xbc, 0xb6, 0xa8, 0x83, 0x93, 0x96, 0xf9, 0x65, 0x2b, 0x6f, 0xf7, 0x2a, 0x70]"
  by (simp add: collision_a_def octet_def)

lemma padded_a: "md5_pad
     [0xd1, 0x31, 0xdd, 0x02, 0xc5, 0xe6, 0xee, 0xc4, 0x69, 0x3d, 0x9a, 0x06, 0x98, 0xaf, 0xf9, 0x5c,
      0x2f, 0xca, 0xb5, 0x87, 0x12, 0x46, 0x7e, 0xab, 0x40, 0x04, 0x58, 0x3e, 0xb8, 0xfb, 0x7f, 0x89,
      0x55, 0xad, 0x34, 0x06, 0x09, 0xf4, 0xb3, 0x02, 0x83, 0xe4, 0x88, 0x83, 0x25, 0x71, 0x41, 0x5a,
      0x08, 0x51, 0x25, 0xe8, 0xf7, 0xcd, 0xc9, 0x9f, 0xd9, 0x1d, 0xbd, 0xf2, 0x80, 0x37, 0x3c, 0x5b,
      0xd8, 0x82, 0x3e, 0x31, 0x56, 0x34, 0x8f, 0x5b, 0xae, 0x6d, 0xac, 0xd4, 0x36, 0xc9, 0x19, 0xc6,
      0xdd, 0x53, 0xe2, 0xb4, 0x87, 0xda, 0x03, 0xfd, 0x02, 0x39, 0x63, 0x06, 0xd2, 0x48, 0xcd, 0xa0,
      0xe9, 0x9f, 0x33, 0x42, 0x0f, 0x57, 0x7e, 0xe8, 0xce, 0x54, 0xb6, 0x70, 0x80, 0xa8, 0x0d, 0x1e,
      0xc6, 0x98, 0x21, 0xbc, 0xb6, 0xa8, 0x83, 0x93, 0x96, 0xf9, 0x65, 0x2b, 0x6f, 0xf7, 0x2a, 0x70]
   = [0xd1, 0x31, 0xdd, 0x02, 0xc5, 0xe6, 0xee, 0xc4, 0x69, 0x3d, 0x9a, 0x06, 0x98, 0xaf, 0xf9, 0x5c,
      0x2f, 0xca, 0xb5, 0x87, 0x12, 0x46, 0x7e, 0xab, 0x40, 0x04, 0x58, 0x3e, 0xb8, 0xfb, 0x7f, 0x89,
      0x55, 0xad, 0x34, 0x06, 0x09, 0xf4, 0xb3, 0x02, 0x83, 0xe4, 0x88, 0x83, 0x25, 0x71, 0x41, 0x5a,
      0x08, 0x51, 0x25, 0xe8, 0xf7, 0xcd, 0xc9, 0x9f, 0xd9, 0x1d, 0xbd, 0xf2, 0x80, 0x37, 0x3c, 0x5b,
      0xd8, 0x82, 0x3e, 0x31, 0x56, 0x34, 0x8f, 0x5b, 0xae, 0x6d, 0xac, 0xd4, 0x36, 0xc9, 0x19, 0xc6,
      0xdd, 0x53, 0xe2, 0xb4, 0x87, 0xda, 0x03, 0xfd, 0x02, 0x39, 0x63, 0x06, 0xd2, 0x48, 0xcd, 0xa0,
      0xe9, 0x9f, 0x33, 0x42, 0x0f, 0x57, 0x7e, 0xe8, 0xce, 0x54, 0xb6, 0x70, 0x80, 0xa8, 0x0d, 0x1e,
      0xc6, 0x98, 0x21, 0xbc, 0xb6, 0xa8, 0x83, 0x93, 0x96, 0xf9, 0x65, 0x2b, 0x6f, 0xf7, 0x2a, 0x70,
      0x80, 0x00, 0x00, 0x00, 0x00, 0x00, 0x00, 0x00, 0x00, 0x00, 0x00, 0x00, 0x00, 0x00, 0x00, 0x00,
      0x00, 0x00, 0x00, 0x00, 0x00, 0x00, 0x00, 0x00, 0x00, 0x00, 0x00, 0x00, 0x00, 0x00, 0x00, 0x00,
      0x00, 0x00, 0x00, 0x00, 0x00, 0x00, 0x00, 0x00, 0x00, 0x00, 0x00, 0x00, 0x00, 0x00, 0x00, 0x00,
      0x00, 0x00, 0x00, 0x00, 0x00, 0x00, 0x00, 0x00, 0x00, 0x04, 0x00, 0x00, 0x00, 0x00, 0x00, 0x00]"
  by (simp add: md5_pad_def octets64_def replicate_55)

lemma md5_block_a1:
  "md5_block (0x67452301, 0xefcdab89, 0x98badcfe, 0x10325476)
     [0x02dd31d1, 0xc4eee6c5, 0x069a3d69, 0x5cf9af98,
      0x87b5ca2f, 0xab7e4612, 0x3e580440, 0x897ffbb8,
      0x0634ad55, 0x02b3f409, 0x8388e483, 0x5a417125,
      0xe8255108, 0x9fc9cdf7, 0xf2bd1dd9, 0x5b3c3780]
   = (0x52589324, 0x3093d7ca, 0x2a06dc54, 0x20c5be06)"
  by (simp add: md5_init_def md5_block_def upt64 md5_step_unrolled rotl32_eval del: md5_step.simps)

lemma md5_block_a2:
  "md5_block (0x52589324, 0x3093d7ca, 0x2a06dc54, 0x20c5be06)
     [0x313e82d8, 0x5b8f3456, 0xd4ac6dae, 0xc619c936,
      0xb4e253dd, 0xfd03da87, 0x06633902, 0xa0cd48d2,
      0x42339fe9, 0xe87e570f, 0x70b654ce, 0x1e0da880,
      0xbc2198c6, 0x9383a8b6, 0x2b65f996, 0x702af76f]
   = (0x8d5e7019, 0x61804e08, 0x715d6b58, 0x6324c015)"
  by (simp add: md5_init_def md5_block_def upt64 md5_step_unrolled rotl32_eval del: md5_step.simps)

lemma md5_block_tail:
  "md5_block (0x8d5e7019, 0x61804e08, 0x715d6b58, 0x6324c015)
     [0x00000080, 0x00000000, 0x00000000, 0x00000000,
      0x00000000, 0x00000000, 0x00000000, 0x00000000,
      0x00000000, 0x00000000, 0x00000000, 0x00000000,
      0x00000000, 0x00000000, 0x00000400, 0x00000000]
   = (0x25400579, 0xa2b15f25, 0x22c44b6e, 0xb44ef5ae)"
  by (simp add: md5_init_def md5_block_def upt64 md5_step_unrolled rotl32_eval del: md5_step.simps)

lemma md5_blocks_a: "md5_blocks
     [0xd1, 0x31, 0xdd, 0x02, 0xc5, 0xe6, 0xee, 0xc4, 0x69, 0x3d, 0x9a, 0x06, 0x98, 0xaf, 0xf9, 0x5c,
      0x2f, 0xca, 0xb5, 0x87, 0x12, 0x46, 0x7e, 0xab, 0x40, 0x04, 0x58, 0x3e, 0xb8, 0xfb, 0x7f, 0x89,
      0x55, 0xad, 0x34, 0x06, 0x09, 0xf4, 0xb3, 0x02, 0x83, 0xe4, 0x88, 0x83, 0x25, 0x71, 0x41, 0x5a,
      0x08, 0x51, 0x25, 0xe8, 0xf7, 0xcd, 0xc9, 0x9f, 0xd9, 0x1d, 0xbd, 0xf2, 0x80, 0x37, 0x3c, 0x5b,
      0xd8, 0x82, 0x3e, 0x31, 0x56, 0x34, 0x8f, 0x5b, 0xae, 0x6d, 0xac, 0xd4, 0x36, 0xc9, 0x19, 0xc6,
      0xdd, 0x53, 0xe2, 0xb4, 0x87, 0xda, 0x03, 0xfd, 0x02, 0x39, 0x63, 0x06, 0xd2, 0x48, 0xcd, 0xa0,
      0xe9, 0x9f, 0x33, 0x42, 0x0f, 0x57, 0x7e, 0xe8, 0xce, 0x54, 0xb6, 0x70, 0x80, 0xa8, 0x0d, 0x1e,
      0xc6, 0x98, 0x21, 0xbc, 0xb6, 0xa8, 0x83, 0x93, 0x96, 0xf9, 0x65, 0x2b, 0x6f, 0xf7, 0x2a, 0x70,
      0x80, 0x00, 0x00, 0x00, 0x00, 0x00, 0x00, 0x00, 0x00, 0x00, 0x00, 0x00, 0x00, 0x00, 0x00, 0x00,
      0x00, 0x00, 0x00, 0x00, 0x00, 0x00, 0x00, 0x00, 0x00, 0x00, 0x00, 0x00, 0x00, 0x00, 0x00, 0x00,
      0x00, 0x00, 0x00, 0x00, 0x00, 0x00, 0x00, 0x00, 0x00, 0x00, 0x00, 0x00, 0x00, 0x00, 0x00, 0x00,
      0x00, 0x00, 0x00, 0x00, 0x00, 0x00, 0x00, 0x00, 0x00, 0x04, 0x00, 0x00, 0x00, 0x00, 0x00, 0x00]
   = (0x25400579, 0xa2b15f25, 0x22c44b6e, 0xb44ef5ae)"
  by (simp add: md5_blocks_def md5_init_def md5_words_def upt_rec md5_block_a1 md5_block_a2 md5_block_tail)

lemma createHash_collision_a: "createHash collision_a = ''79054025255fb1a26e4bc422aef54eb4''"
  by (simp add: createHash_def md5_Sum_def octets_a padded_a md5_blocks_a octets32_def
      hex_EncodeToString_def hexdigit_def)

lemma octets_b: "map octet collision_b =
     [0xd1, 0x31, 0xdd, 0x02, 0xc5, 0xe6, 0xee, 0xc4, 0x69, 0x3d, 0x9a, 0x06, 0x98, 0xaf, 0xf9, 0x5c,
      0x2f, 0xca, 0xb5, 0x07, 0x12, 0x46, 0x7e, 0xab, 0x40, 0x04, 0x58, 0x3e, 0xb8, 0xfb, 0x7f, 0x89,
      0x55, 0xad, 0x34, 0x06, 0x09, 0xf4, 0xb3, 0x02, 0x83, 0xe4, 0x88, 0x83, 0x25, 0xf1, 0x41, 0x5a,
      0x08, 0x51, 0x25, 0xe8, 0xf7, 0xcd, 0xc9, 0x9f, 0xd9, 0x1d, 0xbd, 0x72, 0x80, 0x37, 0x3c, 0x5b,
      0xd8, 0x82, 0x3e, 0x31, 0x56, 0x34, 0x8f, 0x5b, 0xae, 0x6d, 0xac, 0xd4, 0x36, 0xc9, 0x19, 0xc6,
      0xdd, 0x53, 0xe2, 0x34, 0x87, 0xda, 0x03, 0xfd, 0x02, 0x39, 0x63, 0x06, 0xd2, 0x48, 0xcd, 0xa0,
      0xe9, 0x9f, 0x33, 0x42, 0x0f, 0x57, 0x7e, 0xe8, 0xce, 0x54, 0xb6, 0x70, 0x80, 0x28, 0x0d, 0x1e,
      0xc6, 0x98, 0x21, 0xbc, 0xb6, 0xa8, 0x83, 0x93, 0x96, 0xf9, 0x65, 0xab, 0x6f, 0xf7, 0x2a, 0x70]"
  by (simp add: collision_b_def octet_def)

lemma padded_b: "md5_pad
     [0xd1, 0x31, 0xdd, 0x02, 0xc5, 0xe6, 0xee, 0xc4, 0x69, 0x3d, 0x9a, 0x06, 0x98, 0xaf, 0xf9, 0x5c,
      0x2f, 0xca, 0xb5, 0x07, 0x12, 0x46, 0x7e, 0xab, 0x40, 0x04, 0x58, 0x3e, 0xb8, 0xfb, 0x7f, 0x89,
      0x55, 0xad, 0x34, 0x06, 0x09, 0xf4, 0xb3, 0x02, 0x83, 0xe4, 0x88, 0x83, 0x25, 0xf1, 0x41, 0x5a,
      0x08, 0x51, 0x25, 0xe8, 0xf7, 0xcd, 0xc9, 0x9f, 0xd9, 0x1d, 0xbd, 0x72, 0x80, 0x37, 0x3c, 0x5b,
      0xd8, 0x82, 0x3e, 0x31, 0x56, 0x34, 0x8f, 0x5b, 0xae, 0x6d, 0xac, 0xd4, 0x36, 0xc9, 0x19, 0xc6,
      0xdd, 0x53, 0xe2, 0x34, 0x87, 0xda, 0x03, 0xfd, 0x02, 0x39, 0x63, 0x06, 0xd2, 0x48, 0xcd, 0xa0,
      0xe9, 0x9f, 0x33, 0x42, 0x0f, 0x57, 0x7e, 0xe8, 0xce, 0x54, 0xb6, 0x70, 0x80, 0x28, 0x0d, 0x1e,
      0xc6, 0x98, 0x21, 0xbc, 0xb6, 0xa8, 0x83, 0x93, 0x96, 0xf9, 0x65, 0xab, 0x6f, 0xf7, 0x2a, 0x70]
   = [0xd1, 0x31, 0xdd, 0x02, 0xc5, 0xe6, 0xee, 0xc4, 0x69, 0x3d, 0x9a, 0x06, 0x98, 0xaf, 0xf9, 0x5c,
      0x2f, 0xca, 0xb5, 0x07, 0x12, 0x46, 0x7e, 0xab, 0x40, 0x04, 0x58, 0x3e, 0xb8, 0xfb, 0x7f, 0x89,
      0x55, 0xad, 0x34, 0x06, 0x09, 0xf4, 0xb3, 0x02, 0x83, 0xe4, 0x88, 0x83, 0x25, 0xf1, 0x41, 0x5a,
      0x08, 0x51, 0x25, 0xe8, 0xf7, 0xcd, 0xc9, 0x9f, 0xd9, 0x1d, 0xbd, 0x72, 0x80, 0x37, 0x3c, 0x5b,
      0xd8, 0x82, 0x3e, 0x31, 0x56, 0x34, 0x8f, 0x5b, 0xae, 0x6d, 0xac, 0xd4, 0x36, 0xc9, 0x19, 0xc6,
      0xdd, 0x53, 0xe2, 0x34, 0x87, 0xda, 0x03, 0xfd, 0x02, 0x39, 0x63, 0x06, 0xd2, 0x48, 0xcd, 0xa0,
      0xe9, 0x9f, 0x33, 0x42, 0x0f, 0x57, 0x7e, 0xe8, 0xce, 0x54, 0xb6, 0x70, 0x80, 0x28, 0x0d, 0x1e,
      0xc6, 0x98, 0x21, 0xbc, 0xb6, 0xa8, 0x83, 0x93, 0x96, 0xf9, 0x65, 0xab, 0x6f, 0xf7, 0x2a, 0x70,
      0x80, 0x00, 0x00, 0x00, 0x00, 0x00, 0x00, 0x00, 0x00, 0x00, 0x00, 0x00, 0x00, 0x00, 0x00, 0x00,
      0x00, 0x00, 0x00, 0x00, 0x00, 0x00, 0x00, 0x00, 0x00, 0x00, 0x00, 0x00, 0x00, 0x00, 0x00, 0x00,
      0x00, 0x00, 0x00, 0x00, 0x00, 0x00, 0x00, 0x00, 0x00, 0x00, 0x00, 0x00, 0x00, 0x00, 0x00, 0x00,
      0x00, 0x00, 0x00, 0x00, 0x00, 0x00, 0x00, 0x00, 0x00, 0x04, 0x00, 0x00, 0x00, 0x00, 0x00, 0x00]"
  by (simp add: md5_pad_def octets64_def replicate_55)

lemma md5_block_b1:
  "md5_block (0x67452301, 0xefcdab89, 0x98badcfe, 0x10325476)
     [0x02dd31d1, 0xc4eee6c5, 0x069a3d69, 0x5cf9af98,
      0x07b5ca2f, 0xab7e4612, 0x3e580440, 0x897ffbb8,
      0x0634ad55, 0x02b3f409, 0x8388e483, 0x5a41f125,
      0xe8255108, 0x9fc9cdf7, 0x72bd1dd9, 0x5b3c3780]
   = (0xd2589324, 0xb293d7ca, 0xac06dc54, 0xa2c5be06)"
  by (simp add: md5_init_def md5_block_def upt64 md5_step_unrolled rotl32_eval del: md5_step.simps)

lemma md5_block_b2:
  "md5_block (0xd2589324, 0xb293d7ca, 0xac06dc54, 0xa2c5be06)
     [0x313e82d8, 0x5b8f3456, 0xd4ac6dae, 0xc619c936,
      0x34e253dd, 0xfd03da87, 0x06633902, 0xa0cd48d2,
      0x42339fe9, 0xe87e570f, 0x70b654ce, 0x1e0d2880,
      0xbc2198c6, 0x9383a8b6, 0xab65f996, 0x702af76f]
   = (0x8d5e7019, 0x61804e08, 0x715d6b58, 0x6324c015)"
  by (simp add: md5_init_def md5_block_def upt64 md5_step_unrolled rotl32_eval del: md5_step.simps)

lemma md5_blocks_b: "md5_blocks
     [0xd1, 0x31, 0xdd, 0x02, 0xc5, 0xe6, 0xee, 0xc4, 0x69, 0x3d, 0x9a, 0x06, 0x98, 0xaf, 0xf9, 0x5c,
      0x2f, 0xca, 0xb5, 0x07, 0x12, 0x46, 0x7e, 0xab, 0x40, 0x04, 0x58, 0x3e, 0xb8, 0xfb, 0x7f, 0x89,
      0x55, 0xad, 0x34, 0x06, 0x09, 0xf4, 0xb3, 0x02, 0x83, 0xe4, 0x88, 0x83, 0x25, 0xf1, 0x41, 0x5a,
      0x08, 0x51, 0x25, 0xe8, 0xf7, 0xcd, 0xc9, 0x9f, 0xd9, 0x1d, 0xbd, 0x72, 0x80, 0x37, 0x3c, 0x5b,
      0xd8, 0x82, 0x3e, 0x31, 0x56, 0x34, 0x8f, 0x5b, 0xae, 0x6d, 0xac, 0xd4, 0x36, 0xc9, 0x19, 0xc6,
      0xdd, 0x53, 0xe2, 0x34, 0x87, 0xda, 0x03, 0xfd, 0x02, 0x39, 0x63, 0x06, 0xd2, 0x48, 0xcd, 0xa0,
      0xe9, 0x9f, 0x33, 0x42, 0x0f, 0x57, 0x7e, 0xe8, 0xce, 0x54, 0xb6, 0x70, 0x80, 0x28, 0x0d, 0x1e,
      0xc6, 0x98, 0x21, 0xbc, 0xb6, 0xa8, 0x83, 0x93, 0x96, 0xf9, 0x65, 0xab, 0x6f, 0xf7, 0x2a, 0x70,
      0x80, 0x00, 0x00, 0x00, 0x00, 0x00, 0x00, 0x00, 0x00, 0x00, 0x00, 0x00, 0x00, 0x00, 0x00, 0x00,
      0x00, 0x00, 0x00, 0x00, 0x00, 0x00, 0x00, 0x00, 0x00, 0x00, 0x00, 0x00, 0x00, 0x00, 0x00, 0x00,
      0x00, 0x00, 0x00, 0x00, 0x00, 0x00, 0x00, 0x00, 0x00, 0x00, 0x00, 0x00, 0x00, 0x00, 0x00, 0x00,
      0x00, 0x00, 0x00, 0x00, 0x00, 0x00, 0x00, 0x00, 0x00, 0x04, 0x00, 0x00, 0x00, 0x00, 0x00, 0x00]
   = (0x25400579, 0xa2b15f25, 0x22c44b6e, 0xb44ef5ae)"
  by (simp add: md5_blocks_def md5_init_def md5_words_def upt_rec md5_block_b1 md5_block_b2 md5_block_tail)

lemma createHash_collision_b: "createHash collision_b = ''79054025255fb1a26e4bc422aef54eb4''"
  by (simp add: createHash_def md5_Sum_def octets_b padded_b md5_blocks_b octets32_def
      hex_EncodeToString_def hexdigit_def)

text \<open>Two ordinary passphrases, one block each.\<close>

lemma md5_block_secret:
  "md5_block (0x67452301, 0xefcdab89, 0x98badcfe, 0x10325476)
     [0x72636573, 0x00807465, 0x00000000, 0x00000000,
      0x00000000, 0x00000000, 0x00000000, 0x00000000,
      0x00000000, 0x00000000, 0x00000000, 0x00000000,
      0x00000000, 0x00000000, 0x00000030, 0x00000000]
   = (0x9422be5e, 0xf0e0d0ec, 0x9076ab8e, 0x69eea6d2)"
  by (simp add: md5_init_def md5_block_def upt64 md5_step_unrolled rotl32_eval del: md5_step.simps)

lemma replicate_49: "replicate 49 (0 :: 8 word) =
     [0x00, 0x00, 0x00, 0x00, 0x00, 0x00, 0x00, 0x00, 0x00, 0x00, 0x00, 0x00, 0x00, 0x00, 0x00, 0x00,
      0x00, 0x00, 0x00, 0x00, 0x00, 0x00, 0x00, 0x00, 0x00, 0x00, 0x00, 0x00, 0x00, 0x00, 0x00, 0x00,
      0x00, 0x00, 0x00, 0x00, 0x00, 0x00, 0x00, 0x00, 0x00, 0x00, 0x00, 0x00, 0x00, 0x00, 0x00, 0x00,
      0x00]"
  by (simp add: numeral_eq_Suc)

lemma createHash_secret: "createHash ''secret'' = ''5ebe2294ecd0e0f08eab7690d2a6ee69''"
  by (simp add: createHash_def md5_Sum_def octet_def md5_pad_def octets64_def replicate_49)
     (simp add: md5_blocks_def md5_init_def md5_words_def upt_rec md5_block_secret octets32_def
        hex_EncodeToString_def hexdigit_def)

lemma md5_block_hunter2:
  "md5_block (0x67452301, 0xefcdab89, 0x98badcfe, 0x10325476)
     [0x746e7568, 0x80327265, 0x00000000, 0x00000000,
      0x00000000, 0x00000000, 0x00000000, 0x00000000,
      0x00000000, 0x00000000, 0x00000000, 0x00000000,
      0x00000000, 0x00000000, 0x00000038, 0x00000000]
   = (0x9063b92a, 0x43e3dbc7, 0x0c4de79d, 0x67170b9b)"
  by (simp add: md5_init_def md5_block_def upt64 md5_step_unrolled rotl32_eval del: md5_step.simps)

lemma replicate_48: "replicate 48 (0 :: 8 word) =
     [0x00, 0x00, 0x00, 0x00, 0x00, 0x00, 0x00, 0x00, 0x00, 0x00, 0x00, 0x00, 0x00, 0x00, 0x00, 0x00,
      0x00, 0x00, 0x00, 0x00, 0x00, 0x00, 0x00, 0x00, 0x00, 0x00, 0x00, 0x00, 0x00, 0x00, 0x00, 0x00,
      0x00, 0x00, 0x00, 0x00, 0x00, 0x00, 0x00, 0x00, 0x00, 0x00, 0x00, 0x00, 0x00, 0x00, 0x00, 0x00]"
  by (simp add: numeral_eq_Suc)

lemma createHash_hunter2: "createHash ''hunter2'' = ''2ab96390c7dbe3439de74d0c9b0b1767''"
  by (simp add: createHash_def md5_Sum_def octet_def md5_pad_def octets64_def replicate_48)
     (simp add: md5_blocks_def md5_init_def md5_words_def upt_rec md5_block_hunter2 octets32_def
        hex_EncodeToString_def hexdigit_def)

lemma collision_distinct: "collision_a \<noteq> collision_b"
  by (simp add: collision_a_def collision_b_def)

subsection \<open>Sealing of stored blobs\<close>


lemma encryptData_starved:
  "encryptionKey s \<noteq> [] \<Longrightarrow> length rnd < NonceSize \<Longrightarrow>
   encryptData L rnd s data = Return (Inl (ErrWrap (ErrNew ''unexpected EOF'') ''failed to encrypt wallet''))"
  by (simp add: encryptData_def encrypt_starved)




text \<open>
  \<open>OpenWallet\<close> reads back what \<open>SaveWallet\<close> stored without decrypting, whatever the
  encryption key is: the two agree on a wallet that is stored in the clear.
\<close>

lemma OpenWallet_after_SaveWallet:
  assumes "WalletJSON wallet = Inr data" and "data \<noteq> []"
  shows "OpenWallet L (snd (SaveWallet s wallet)) =
           (case UnmarshalWallet L data of
              Inl e \<Rightarrow> (None, Some (ErrWrap e ''failed to unmarshal HD Wallet object''))
            | Inr ret \<Rightarrow> (Some ret, None))"
  using assms
  by (simp add: OpenWallet_def SaveWallet_def db_Set_def db_Get_def objPrefix_def update_conv')




subsection \<open>Encrypting and decrypting\<close>

lemma decrypt_encrypted:
  assumes "NonceSize \<le> length rnd"
  shows "decrypt L (take NonceSize rnd @ Seal L (createHash passphrase) (take NonceSize rnd) data) other =
           Return (case Open L (createHash other) (take NonceSize rnd)
                          (Seal L (createHash passphrase) (take NonceSize rnd) data) of
                     None \<Rightarrow> Inl (ErrNew ''cipher: message authentication failed'')
                   | Some plaintext \<Rightarrow> Inr plaintext)"
proof -
  let ?c = "take NonceSize rnd @ Seal L (createHash passphrase) (take NonceSize rnd) data"
  have "NonceSize \<le> length ?c" using assms by simp
  from decrypt_long [OF this, of L other] show ?thesis using assms by simp
qed

lemma OpenAccount_cannot_decrypt:
  assumes "encryptionKey s \<noteq> []"
    and "db_Get (ekm_db s) (objPrefix s accountsPrefix) (accountsPath accountID) = (Some c, None)"
    and "decrypt L c (encryptionKey s) = Return (Inl e)"
  shows "OpenAccount L s accountID =
           Return (None, Some (ErrWrap ErrCantDecrypt (Error_text (ErrWrap e ''failed to decrypt wallet''))))"
  using assms by (simp add: OpenAccount_def decryptData_def)

text \<open>
  C4, as the code has it. Assume of the AEAD only that opening under the key and nonce
  that sealed gives the plaintext back, which AES-GCM does. Then, whenever the random
  source delivers a nonce, \<open>encrypt\<close> returns a blob \<open>c\<close> (the nonce followed by the
  sealed payload) that \<open>decrypt\<close> under the same passphrase turns back into the payload.
  Under any other passphrase,
  \<^item> \<open>decrypt\<close> returns what \<open>Open\<close> of the AEAD returns under the key derived from that
    passphrase, for the nonce and the sealed text of the blob: the plaintext that
    \<open>Open\<close> authenticated, or the authentication error and no plaintext;
  \<^item> when the MD5 digests of the two passphrases are equal, that is the payload;
  \<^item> whenever \<open>Open\<close> fails under the derived key, \<open>decrypt\<close> returns the
    authentication error, and \<open>OpenAccount\<close> on a storage keyed with that passphrase
    and holding the blob returns no account and an error whose cause is
    \<open>ErrCantDecrypt\<close>, which is not the error of a missing account.

  Whether \<open>Open\<close> fails under a key other than the sealing key is a matter of the AEAD
  and is not assumed.
\<close>

theorem encrypt_decrypt:
  assumes correct: "\<forall>key nonce p. length key = 32 \<and> length nonce = NonceSize \<longrightarrow>
                      Open L key nonce (Seal L key nonce p) = Some p"
    and rnd: "NonceSize \<le> length rnd"
  shows "\<exists>c. encrypt L rnd payload passphrase = Return (Inr c) \<and>
             c = take NonceSize rnd @ Seal L (createHash passphrase) (take NonceSize rnd) payload \<and>
             decrypt L c passphrase = Return (Inr payload) \<and>
             (\<forall>other.
                decrypt L c other =
                  Return (case Open L (createHash other) (take NonceSize c) (drop NonceSize c) of
                            None \<Rightarrow> Inl (ErrNew ''cipher: message authentication failed'')
                          | Some plaintext \<Rightarrow> Inr plaintext) \<and>
                (createHash other = createHash passphrase \<longrightarrow>
                   decrypt L c other = Return (Inr payload)) \<and>
                (Open L (createHash other) (take NonceSize c) (drop NonceSize c) = None \<longrightarrow>
                   decrypt L c other = Return (Inl (ErrNew ''cipher: message authentication failed'')) \<and>
                   (\<forall>s accountID.
                      other \<noteq> [] \<and> encryptionKey s = other \<and>
                      db_Get (ekm_db s) (objPrefix s accountsPrefix) (accountsPath accountID) = (Some c, None)
                      \<longrightarrow> (\<exists>e. OpenAccount L s accountID = Return (None, Some e) \<and>
                               Cause e = ErrCantDecrypt \<and> e \<noteq> ErrNew ''account not found''))))"
proof -
  let ?n = "take NonceSize rnd"
  let ?c = "?n @ Seal L (createHash passphrase) ?n payload"
  have n: "length ?n = NonceSize" using rnd by simp
  have tk: "take NonceSize ?c = ?n" and dr: "drop NonceSize ?c = Seal L (createHash passphrase) ?n payload"
    using n by simp_all
  have enc: "encrypt L rnd payload passphrase = Return (Inr ?c)"
    using rnd by (rule encrypt_enough)
  have any: "decrypt L ?c other =
               Return (case Open L (createHash other) (take NonceSize ?c) (drop NonceSize ?c) of
                         None \<Rightarrow> Inl (ErrNew ''cipher: message authentication failed'')
                       | Some plaintext \<Rightarrow> Inr plaintext)" for other
    unfolding tk dr by (rule decrypt_encrypted [OF rnd])
  have same: "Open L (createHash passphrase) ?n (Seal L (createHash passphrase) ?n payload) = Some payload"
    using correct n length_createHash by blast
  have dec: "decrypt L ?c other = Return (Inr payload)"
    if "createHash other = createHash passphrase" for other
    using same that by (simp add: decrypt_encrypted [OF rnd])
  have fails: "decrypt L ?c other = Return (Inl (ErrNew ''cipher: message authentication failed''))"
    if "Open L (createHash other) (take NonceSize ?c) (drop NonceSize ?c) = None" for other
    using that unfolding any by simp
  have acct: "\<exists>e. OpenAccount L s accountID = Return (None, Some e) \<and>
                  Cause e = ErrCantDecrypt \<and> e \<noteq> ErrNew ''account not found''"
    if "Open L (createHash other) (take NonceSize ?c) (drop NonceSize ?c) = None"
      and "other \<noteq> [] \<and> encryptionKey s = other \<and>
           db_Get (ekm_db s) (objPrefix s accountsPrefix) (accountsPath accountID) = (Some ?c, None)"
    for other s accountID
  proof -
    from that(2) fails [OF that(1)] have k: "encryptionKey s \<noteq> []" and
      g: "db_Get (ekm_db s) (objPrefix s accountsPrefix) (accountsPath accountID) = (Some ?c, None)" and
      d: "decrypt L ?c (encryptionKey s) = Return (Inl (ErrNew ''cipher: message authentication failed''))"
      by auto
    from OpenAccount_cannot_decrypt [OF k g d] show ?thesis
      by (simp add: ErrCantDecrypt_def)
  qed
  have "decrypt L ?c passphrase = Return (Inr payload)" using dec by simp
  with enc any dec fails acct show ?thesis by blast
qed

lemma demo_lib_correct:
  "\<forall>key nonce p. length key = 32 \<and> length nonce = NonceSize \<longrightarrow>
      Open demo_lib key nonce (Seal demo_lib key nonce p) = Some p"
  by (simp add: demo_lib_def)

theorem encrypt_decrypt_witness:
  "NonceSize \<le> length demo_rand \<and>
   encrypt demo_lib demo_rand ''payload'' ''secret''
     = Return (Inr (''0123456789ab'' @ ''5ebe2294ecd0e0f08eab7690d2a6ee69'' @ ''0123456789ab'' @ ''payload'')) \<and>
   decrypt demo_lib (''0123456789ab'' @ ''5ebe2294ecd0e0f08eab7690d2a6ee69'' @ ''0123456789ab'' @ ''payload'')
       ''secret'' = Return (Inr ''payload'') \<and>
   Open demo_lib (createHash ''hunter2'') ''0123456789ab''
       (''5ebe2294ecd0e0f08eab7690d2a6ee69'' @ ''0123456789ab'' @ ''payload'') = None \<and>
   decrypt demo_lib (''0123456789ab'' @ ''5ebe2294ecd0e0f08eab7690d2a6ee69'' @ ''0123456789ab'' @ ''payload'')
       ''hunter2'' = Return (Inl (ErrNew ''cipher: message authentication failed'')) \<and>
   (\<exists>e. OpenAccount demo_lib demo_wrong_key_storage ''acc-1'' = Return (None, Some e) \<and>
        Cause e = ErrCantDecrypt \<and> e \<noteq> ErrNew ''account not found'') \<and>
   createHash collision_b = createHash collision_a \<and>
   (\<exists>c. encrypt demo_lib demo_rand ''payload'' collision_a = Return (Inr c) \<and>
        decrypt demo_lib c collision_b = Return (Inr ''payload''))"
proof -
  let ?c = "''0123456789ab'' @ ''5ebe2294ecd0e0f08eab7690d2a6ee69'' @ ''0123456789ab'' @ ''payload''"
  have r: "NonceSize \<le> length demo_rand" by (simp add: demo_rand_def NonceSize_def)
  have tn: "take NonceSize demo_rand = ''0123456789ab''" by (simp add: demo_rand_def NonceSize_def)
  have g: "''hunter2'' \<noteq> [] \<and> encryptionKey demo_wrong_key_storage = ''hunter2'' \<and>
           db_Get (ekm_db demo_wrong_key_storage) (objPrefix demo_wrong_key_storage accountsPrefix)
             (accountsPath ''acc-1'') = (Some ?c, None)"
    by (simp add: demo_wrong_key_storage_def db_Get_def objPrefix_def accountsPrefix_def
        prefix_signer_def accountsPath_def)
  have tk: "take NonceSize ?c = ''0123456789ab''"
    and dr: "drop NonceSize ?c = ''5ebe2294ecd0e0f08eab7690d2a6ee69'' @ ''0123456789ab'' @ ''payload''"
    by (simp_all add: NonceSize_def)
  have op: "Open demo_lib (createHash ''hunter2'') ''0123456789ab''
              (''5ebe2294ecd0e0f08eab7690d2a6ee69'' @ ''0123456789ab'' @ ''payload'') = None"
    by (simp add: createHash_hunter2 demo_lib_def)
  from encrypt_decrypt [OF demo_lib_correct r, of "''payload''" "''secret''"]
  obtain c where c: "encrypt demo_lib demo_rand ''payload'' ''secret'' = Return (Inr c)"
    and ceq: "c = take NonceSize demo_rand
                    @ Seal demo_lib (createHash ''secret'') (take NonceSize demo_rand) ''payload''"
    and d: "decrypt demo_lib c ''secret'' = Return (Inr ''payload'')"
    and o: "\<forall>other.
               decrypt demo_lib c other =
                  Return (case Open demo_lib (createHash other) (take NonceSize c) (drop NonceSize c) of
                            None \<Rightarrow> Inl (ErrNew ''cipher: message authentication failed'')
                          | Some plaintext \<Rightarrow> Inr plaintext) \<and>
                (createHash other = createHash ''secret'' \<longrightarrow>
                   decrypt demo_lib c other = Return (Inr ''payload'')) \<and>
                (Open demo_lib (createHash other) (take NonceSize c) (drop NonceSize c) = None \<longrightarrow>
                   decrypt demo_lib c other = Return (Inl (ErrNew ''cipher: message authentication failed'')) \<and>
                   (\<forall>s accountID.
                      other \<noteq> [] \<and> encryptionKey s = other \<and>
                      db_Get (ekm_db s) (objPrefix s accountsPrefix) (accountsPath accountID) = (Some c, None)
                      \<longrightarrow> (\<exists>e. OpenAccount demo_lib s accountID = Return (None, Some e) \<and>
                               Cause e = ErrCantDecrypt \<and> e \<noteq> ErrNew ''account not found'')))"
    by blast
  have c': "c = ?c" unfolding ceq tn by (simp add: createHash_secret demo_lib_def)
  from op have op': "Open demo_lib (createHash ''hunter2'') (take NonceSize c) (drop NonceSize c) = None"
    unfolding c' tk dr .
  from o op' have o1: "decrypt demo_lib c ''hunter2'' = Return (Inl (ErrNew ''cipher: message authentication failed''))"
    and o2: "\<forall>s accountID.
                   ''hunter2'' \<noteq> [] \<and> encryptionKey s = ''hunter2'' \<and>
                   db_Get (ekm_db s) (objPrefix s accountsPrefix) (accountsPath accountID) = (Some c, None)
                   \<longrightarrow> (\<exists>e. OpenAccount demo_lib s accountID = Return (None, Some e) \<and>
                            Cause e = ErrCantDecrypt \<and> e \<noteq> ErrNew ''account not found'')"
    by blast+
  from o2 g c' have o3: "\<exists>e. OpenAccount demo_lib demo_wrong_key_storage ''acc-1'' = Return (None, Some e) \<and>
        Cause e = ErrCantDecrypt \<and> e \<noteq> ErrNew ''account not found''"
    by blast
  have h: "createHash collision_b = createHash collision_a"
    by (simp add: createHash_collision_a createHash_collision_b)
  from encrypt_decrypt [OF demo_lib_correct r, of "''payload''" collision_a] h
  have col: "\<exists>c. encrypt demo_lib demo_rand ''payload'' collision_a = Return (Inr c) \<and>
        decrypt demo_lib c collision_b = Return (Inr ''payload'')"
    by blast
  from c d o1 have c2: "encrypt demo_lib demo_rand ''payload'' ''secret'' = Return (Inr ?c)"
    and d2: "decrypt demo_lib ?c ''secret'' = Return (Inr ''payload'')"
    and o4: "decrypt demo_lib ?c ''hunter2'' = Return (Inl (ErrNew ''cipher: message authentication failed''))"
    unfolding c' by blast+
  from r c2 d2 op o4 o3 h col show ?thesis by blast
qed

text \<open>
  \<open>decrypt\<close> uses the passphrase through \<open>createHash\<close> only: with any AEAD and on any
  data, the two passphrases of the collision decrypt alike.
\<close>

lemma decrypt_same_digest:
  "createHash passphrase = createHash other \<Longrightarrow> decrypt L data passphrase = decrypt L data other"
  by (simp add: decrypt_def)

lemma decrypt_collision: "decrypt L data collision_a = decrypt L data collision_b"
  by (rule decrypt_same_digest) (simp add: createHash_collision_a createHash_collision_b)

text \<open>
  C4 as stated fails for two distinct passphrases with the same MD5 digest: the derived
  keys are equal, and what was encrypted under one decrypts under the other without
  an error (shown with the stand-in for the AEAD; by the lemma above the AEAD makes no
  difference).
\<close>

theorem same_digest_decrypts:
  "collision_a \<noteq> collision_b \<and>
   createHash collision_a = ''79054025255fb1a26e4bc422aef54eb4'' \<and>
   createHash collision_b = ''79054025255fb1a26e4bc422aef54eb4'' \<and>
   encrypt demo_lib demo_rand ''payload'' collision_a
     = Return (Inr (''0123456789ab'' @ ''79054025255fb1a26e4bc422aef54eb4'' @ ''0123456789ab'' @ ''payload'')) \<and>
   decrypt demo_lib (''0123456789ab'' @ ''79054025255fb1a26e4bc422aef54eb4'' @ ''0123456789ab'' @ ''payload'')
       collision_b
     = Return (Inr ''payload'')"
proof -
  have r: "NonceSize \<le> length demo_rand" by (simp add: demo_rand_def NonceSize_def)
  have n: "take NonceSize demo_rand = ''0123456789ab''" by (simp add: demo_rand_def NonceSize_def)
  have e: "encrypt demo_lib demo_rand ''payload'' collision_a
     = Return (Inr (''0123456789ab'' @ ''79054025255fb1a26e4bc422aef54eb4'' @ ''0123456789ab'' @ ''payload''))"
    using encrypt_enough [OF r, of demo_lib "''payload''" collision_a]
    by (simp add: n createHash_collision_a) (simp add: demo_lib_def)
  have l: "NonceSize \<le> length (''0123456789ab'' @ ''79054025255fb1a26e4bc422aef54eb4'' @ ''0123456789ab'' @ ''payload'')"
    by (simp add: NonceSize_def)
  have d: "decrypt demo_lib (''0123456789ab'' @ ''79054025255fb1a26e4bc422aef54eb4'' @ ''0123456789ab'' @ ''payload'')
       collision_b = Return (Inr ''payload'')"
    using decrypt_long [OF l, of demo_lib collision_b]
    by (simp add: createHash_collision_b NonceSize_def) (simp add: demo_lib_def)
  from collision_distinct createHash_collision_a createHash_collision_b e d show ?thesis by simp
qed

section \<open>Properties of the validator runtime\<close>

subsection \<open>The controllers of a validator\<close>

text \<open>
  C8, as the code has it. The map that \<open>NewValidator\<close> builds has one entry, for the
  attester role: \<open>ControllerForIdentifier\<close> returns the controller made for the
  attester on an identifier of that role, and nil on an identifier of any other role.
\<close>

theorem Controllers_of_NewValidator:
  "ControllerForIdentifier (ibfts (NewValidator controller_New opt)) identifier =
     (if GetRoleType identifier = RoleTypeAttester then Some (controller_New RoleTypeAttester opt)
      else None)"
  by (simp add: ControllerForIdentifier_def NewValidator_def setupIbfts_def setupIbftController_def)

text \<open>
  C8 as stated fails for the proposer role: the validator has no controller for it.
\<close>

theorem no_controller_for_proposer:
  "ControllerForIdentifier (ibfts (NewValidator spec_controller_New demo_options))
     \<lparr>ValidatorPK = ''pk'', Role = RoleTypeProposer\<rparr> = None"
  by (simp add: ControllerForIdentifier_def NewValidator_def setupIbfts_def GetRoleType_def)

subsection \<open>Read mode\<close>

lemma ProcessMsg_read:
  "readMode v \<Longrightarrow>
   ProcessMsg D v msg =
     (case messageHandler D v msg of Panic p \<Rightarrow> Panic p | Return (err, v') \<Rightarrow> Return v')"
  by (simp add: ProcessMsg_def)

lemma spec_processConsensusMsg_returns: "\<exists>r. spec_processConsensusMsg v c m = Return r"
  by (auto simp: spec_processConsensusMsg_def split: option.splits prod.splits)

lemma spec_processPostConsensusSig_returns: "\<exists>r. spec_processPostConsensusSig v c m = Return r"
  by (auto simp: spec_processPostConsensusSig_def split: option.splits)

text \<open>
  C2, as the code has it. In read mode \<open>ProcessMsg\<close> is the handler run inline: nothing
  is put on the queue and the handler's error is dropped. With no assumption on the
  validation, the decoders and the two processing methods, for every message:
  \<^item> a message that fails validation, a message of an unknown type, and a consensus or
    post-consensus message whose payload does not decode: \<open>ProcessMsg\<close> returns and
    leaves the validator as it was;
  \<^item> a consensus or post-consensus message that decodes: \<open>ProcessMsg\<close> is the one call
    of the processing method on the validator, the controller looked up for the
    identifier (nil when there is none) and the decoded message; it returns the
    validator that call leaves whenever that call returns, whatever error the call
    gives, and panics only when that call panics;
  \<^item> a message of the sync type that passes validation: \<open>ProcessMsg\<close> panics with
    "need to implement!".
\<close>

theorem ProcessMsg_readMode:
  assumes read: "readMode v"
  shows "ProcessMsg D v msg =
           (case messageHandler D v msg of Panic p \<Rightarrow> Panic p | Return (err, v') \<Rightarrow> Return v') \<and>
         (validateMessage D v msg \<noteq> None \<longrightarrow> ProcessMsg D v msg = Return v) \<and>
         (validateMessage D v msg = None \<longrightarrow>
            (\<forall>n. MsgType msg = SSVOtherMsgType n \<longrightarrow> ProcessMsg D v msg = Return v) \<and>
            (MsgType msg = SSVSyncMsgType \<longrightarrow> ProcessMsg D v msg = Panic ''need to implement!'') \<and>
            (MsgType msg = SSVConsensusMsgType \<longrightarrow>
               (\<forall>e. SignedMessage_Decode D (Data msg) = Inl e \<longrightarrow> ProcessMsg D v msg = Return v) \<and>
               (\<forall>m. SignedMessage_Decode D (Data msg) = Inr m \<longrightarrow>
                  (\<forall>err v'. processConsensusMsg D v (ControllerForIdentifier (ibfts v) (MsgID msg)) m
                               = Return (err, v') \<longrightarrow> ProcessMsg D v msg = Return v') \<and>
                  (\<forall>p. processConsensusMsg D v (ControllerForIdentifier (ibfts v) (MsgID msg)) m
                               = Panic p \<longrightarrow> ProcessMsg D v msg = Panic p))) \<and>
            (MsgType msg = SSVPostConsensusMsgType \<longrightarrow>
               (\<forall>e. SignedPostConsensusMessage_Decode D (Data msg) = Inl e \<longrightarrow>
                  ProcessMsg D v msg = Return v) \<and>
               (\<forall>m. SignedPostConsensusMessage_Decode D (Data msg) = Inr m \<longrightarrow>
                  (\<forall>err v'. processPostConsensusSig D v (ControllerForIdentifier (ibfts v) (MsgID msg)) m
                               = Return (err, v') \<longrightarrow> ProcessMsg D v msg = Return v') \<and>
                  (\<forall>p. processPostConsensusSig D v (ControllerForIdentifier (ibfts v) (MsgID msg)) m
                               = Panic p \<longrightarrow> ProcessMsg D v msg = Panic p))))"
proof (intro conjI impI allI)
  show "ProcessMsg D v msg =
           (case messageHandler D v msg of Panic p \<Rightarrow> Panic p | Return (err, v') \<Rightarrow> Return v')"
    using read by (rule ProcessMsg_read)
next
  assume "validateMessage D v msg \<noteq> None"
  then show "ProcessMsg D v msg = Return v"
    using read by (auto simp: ProcessMsg_def messageHandler_def)
next
  fix n assume "validateMessage D v msg = None" "MsgType msg = SSVOtherMsgType n"
  then show "ProcessMsg D v msg = Return v"
    using read by (simp add: ProcessMsg_def messageHandler_def)
next
  assume "validateMessage D v msg = None" "MsgType msg = SSVSyncMsgType"
  then show "ProcessMsg D v msg = Panic ''need to implement!''"
    using read by (simp add: ProcessMsg_def messageHandler_def)
next
  fix e assume "validateMessage D v msg = None" "MsgType msg = SSVConsensusMsgType"
    "SignedMessage_Decode D (Data msg) = Inl e"
  then show "ProcessMsg D v msg = Return v"
    using read by (simp add: ProcessMsg_def messageHandler_def)
next
  fix m err v'
  assume "validateMessage D v msg = None" "MsgType msg = SSVConsensusMsgType"
    "SignedMessage_Decode D (Data msg) = Inr m"
    "processConsensusMsg D v (ControllerForIdentifier (ibfts v) (MsgID msg)) m = Return (err, v')"
  then show "ProcessMsg D v msg = Return v'"
    using read by (simp add: ProcessMsg_def messageHandler_def)
next
  fix m p
  assume "validateMessage D v msg = None" "MsgType msg = SSVConsensusMsgType"
    "SignedMessage_Decode D (Data msg) = Inr m"
    "processConsensusMsg D v (ControllerForIdentifier (ibfts v) (MsgID msg)) m = Panic p"
  then show "ProcessMsg D v msg = Panic p"
    using read by (simp add: ProcessMsg_def messageHandler_def)
next
  fix e assume "validateMessage D v msg = None" "MsgType msg = SSVPostConsensusMsgType"
    "SignedPostConsensusMessage_Decode D (Data msg) = Inl e"
  then show "ProcessMsg D v msg = Return v"
    using read by (simp add: ProcessMsg_def messageHandler_def)
next
  fix m err v'
  assume "validateMessage D v msg = None" "MsgType msg = SSVPostConsensusMsgType"
    "SignedPostConsensusMessage_Decode D (Data msg) = Inr m"
    "processPostConsensusSig D v (ControllerForIdentifier (ibfts v) (MsgID msg)) m = Return (err, v')"
  then show "ProcessMsg D v msg = Return v'"
    using read by (simp add: ProcessMsg_def messageHandler_def)
next
  fix m p
  assume "validateMessage D v msg = None" "MsgType msg = SSVPostConsensusMsgType"
    "SignedPostConsensusMessage_Decode D (Data msg) = Inr m"
    "processPostConsensusSig D v (ControllerForIdentifier (ibfts v) (MsgID msg)) m = Panic p"
  then show "ProcessMsg D v msg = Panic p"
    using read by (simp add: ProcessMsg_def messageHandler_def)
qed

lemma demo_readMode: "readMode demo_validator"
  by (simp add: demo_validator_def NewValidator_def demo_options_def)

lemma demo_controller:
  "ControllerForIdentifier (ibfts demo_validator) \<lparr>ValidatorPK = ''pk'', Role = RoleTypeAttester\<rparr>
     = Some (spec_controller_New RoleTypeAttester demo_options)"
  by (simp add: demo_validator_def ControllerForIdentifier_def NewValidator_def setupIbfts_def
      setupIbftController_def GetRoleType_def)

text \<open>
  The statement at the validator of the example, in read mode: a message that the
  validation rejects, a message of an unknown type, consensus and post-consensus
  messages with an empty payload (which does not decode) and with a payload that
  decodes, a post-consensus message whose processing method panics, and a sync message.
\<close>

theorem ProcessMsg_readMode_witness:
  "readMode demo_validator \<and>
   validateMessage demo_rejecting_deps demo_validator (demo_message SSVSyncMsgType RoleTypeAttester ''1v'')
     \<noteq> None \<and>
   ProcessMsg demo_rejecting_deps demo_validator (demo_message SSVSyncMsgType RoleTypeAttester ''1v'')
     = Return demo_validator \<and>
   validateMessage demo_deps demo_validator (demo_message (SSVOtherMsgType 7) RoleTypeAttester ''1v'') = None \<and>
   ProcessMsg demo_deps demo_validator (demo_message (SSVOtherMsgType 7) RoleTypeAttester ''1v'')
     = Return demo_validator \<and>
   SignedMessage_Decode demo_deps [] = Inl (ErrNew ''empty payload'') \<and>
   ProcessMsg demo_deps demo_validator (demo_message SSVConsensusMsgType RoleTypeAttester [])
     = Return demo_validator \<and>
   SignedPostConsensusMessage_Decode demo_deps [] = Inl (ErrNew ''empty payload'') \<and>
   ProcessMsg demo_deps demo_validator (demo_message SSVPostConsensusMsgType RoleTypeAttester [])
     = Return demo_validator \<and>
   SignedPostConsensusMessage_Decode demo_deps ''1s'' = Inr \<lparr>OperatorID = 1, PartialSignature = ''s''\<rparr> \<and>
   ProcessMsg demo_deps demo_validator (demo_message SSVPostConsensusMsgType RoleTypeAttester ''1s'')
     = Return (demo_validator\<lparr>signatureState := (signatureState demo_validator)\<lparr>collected := [(1, ''s'')]\<rparr>\<rparr>) \<and>
   (\<exists>m err v'. SignedMessage_Decode demo_deps ''1v'' = Inr m \<and>
       processConsensusMsg demo_deps demo_validator
           (ControllerForIdentifier (ibfts demo_validator) \<lparr>ValidatorPK = ''pk'', Role = RoleTypeAttester\<rparr>) m
         = Return (err, v') \<and>
       ProcessMsg demo_deps demo_validator (demo_message SSVConsensusMsgType RoleTypeAttester ''1v'')
         = Return v') \<and>
   processPostConsensusSig demo_panicking_deps demo_validator
       (ControllerForIdentifier (ibfts demo_validator) \<lparr>ValidatorPK = ''pk'', Role = RoleTypeAttester\<rparr>)
       \<lparr>OperatorID = 1, PartialSignature = ''s''\<rparr> = Panic ''boom'' \<and>
   ProcessMsg demo_panicking_deps demo_validator (demo_message SSVPostConsensusMsgType RoleTypeAttester ''1s'')
     = Panic ''boom'' \<and>
   ProcessMsg demo_deps demo_validator (demo_message SSVSyncMsgType RoleTypeAttester [])
     = Panic ''need to implement!''"
proof -
  let ?id = "\<lparr>ValidatorPK = ''pk'', Role = RoleTypeAttester\<rparr>"
  let ?c = "ControllerForIdentifier (ibfts demo_validator) ?id"
  let ?pm = "\<lparr>OperatorID = 1, PartialSignature = ''s''\<rparr>"
  note T = ProcessMsg_readMode [OF demo_readMode]
  note Rej = T [THEN conjunct2, THEN conjunct1, rule_format]
  note V = T [THEN conjunct2, THEN conjunct2, THEN mp]
  note Oth = V [THEN conjunct1, rule_format]
  note Syn = V [THEN conjunct2, THEN conjunct1, rule_format]
  note Con = V [THEN conjunct2, THEN conjunct2, THEN conjunct1, THEN mp]
  note Pos = V [THEN conjunct2, THEN conjunct2, THEN conjunct2, THEN mp]
  note ConE = Con [THEN conjunct1, rule_format]
  note ConR = Con [THEN conjunct2, rule_format, THEN conjunct1, rule_format]
  note PosE = Pos [THEN conjunct1, rule_format]
  note PosR = Pos [THEN conjunct2, rule_format, THEN conjunct1, rule_format]
  note PosP = Pos [THEN conjunct2, rule_format, THEN conjunct2, rule_format]
  have v: "validateMessage demo_deps demo_validator m = None" for m
    by (simp add: demo_deps_def spec_deps_def)
  have vp: "validateMessage demo_panicking_deps demo_validator m = None" for m
    by (simp add: demo_panicking_deps_def)
  have rej: "validateMessage demo_rejecting_deps demo_validator m \<noteq> None" for m
    by (simp add: demo_rejecting_deps_def spec_deps_def)
  have ty: "MsgType (demo_message t r d) = t" and dt: "Data (demo_message t r d) = d"
    and mid: "MsgID (demo_message t r d) = \<lparr>ValidatorPK = ''pk'', Role = r\<rparr>" for t r d
    by (simp_all add: demo_message_def)
  have d0: "SignedMessage_Decode demo_deps [] = Inl (ErrNew ''empty payload'')"
    and p0: "SignedPostConsensusMessage_Decode demo_deps [] = Inl (ErrNew ''empty payload'')"
    and p1: "SignedPostConsensusMessage_Decode demo_deps ''1s'' = Inr ?pm"
    and pp1: "SignedPostConsensusMessage_Decode demo_panicking_deps ''1s'' = Inr ?pm"
    by (simp_all add: demo_deps_def spec_deps_def demo_decode_def demo_decodePost_def
        demo_panicking_deps_def)
  obtain m where d1: "SignedMessage_Decode demo_deps ''1v'' = Inr m"
    by (simp add: demo_deps_def spec_deps_def demo_decode_def)
  obtain err v' where c1: "processConsensusMsg demo_deps demo_validator ?c m = Return (err, v')"
    using spec_processConsensusMsg_returns [of demo_validator ?c m]
    by (auto simp: demo_deps_def spec_deps_def)
  have post: "processPostConsensusSig demo_deps demo_validator ?c ?pm
      = Return (None, demo_validator\<lparr>signatureState := (signatureState demo_validator)\<lparr>collected := [(1, ''s'')]\<rparr>\<rparr>)"
    unfolding demo_controller
    by (simp add: demo_deps_def spec_deps_def spec_processPostConsensusSig_def)
      (simp add: demo_validator_def NewValidator_def)
  have boom: "processPostConsensusSig demo_panicking_deps demo_validator ?c ?pm = Panic ''boom''"
    by (simp add: demo_panicking_deps_def)
  have a1: "ProcessMsg demo_rejecting_deps demo_validator (demo_message SSVSyncMsgType RoleTypeAttester ''1v'')
              = Return demo_validator"
    by (rule Rej) (rule rej)
  have a2: "ProcessMsg demo_deps demo_validator (demo_message (SSVOtherMsgType 7) RoleTypeAttester ''1v'')
              = Return demo_validator"
    by (rule Oth [of _ _ 7]) (simp_all add: v ty)
  have a3: "ProcessMsg demo_deps demo_validator (demo_message SSVConsensusMsgType RoleTypeAttester [])
              = Return demo_validator"
    by (rule ConE [of _ _ "ErrNew ''empty payload''"]) (simp_all add: v ty dt d0)
  have a4: "ProcessMsg demo_deps demo_validator (demo_message SSVPostConsensusMsgType RoleTypeAttester [])
              = Return demo_validator"
    by (rule PosE [of _ _ "ErrNew ''empty payload''"]) (simp_all add: v ty dt p0)
  have a5: "ProcessMsg demo_deps demo_validator (demo_message SSVPostConsensusMsgType RoleTypeAttester ''1s'')
              = Return (demo_validator\<lparr>signatureState := (signatureState demo_validator)\<lparr>collected := [(1, ''s'')]\<rparr>\<rparr>)"
    by (rule PosR [of _ _ ?pm None]) (simp_all only: v ty dt mid p1 post)
  have a6: "ProcessMsg demo_deps demo_validator (demo_message SSVConsensusMsgType RoleTypeAttester ''1v'')
              = Return v'"
    by (rule ConR [of _ _ m err]) (simp_all only: v ty dt mid d1 c1)
  have a7: "ProcessMsg demo_panicking_deps demo_validator
              (demo_message SSVPostConsensusMsgType RoleTypeAttester ''1s'') = Panic ''boom''"
    by (rule PosP [of _ _ ?pm]) (simp_all only: vp ty dt mid pp1 boom)
  have a8: "ProcessMsg demo_deps demo_validator (demo_message SSVSyncMsgType RoleTypeAttester [])
              = Panic ''need to implement!''"
    by (rule Syn) (simp_all add: v ty)
  from demo_readMode rej v d0 p0 p1 d1 c1 boom a1 a2 a3 a4 a5 a6 a7 a8 show ?thesis by blast
qed

text \<open>
  C2 as stated fails for the sync type: in read mode, a sync message that passes
  validation makes \<open>ProcessMsg\<close> panic.
\<close>

theorem sync_message_panics:
  "readMode demo_validator \<and>
   validateMessage demo_deps demo_validator (demo_message SSVSyncMsgType RoleTypeAttester ''1v'') = None \<and>
   ProcessMsg demo_deps demo_validator (demo_message SSVSyncMsgType RoleTypeAttester ''1v'')
     = Panic ''need to implement!''"
  by (simp add: demo_readMode ProcessMsg_def messageHandler_def demo_deps_def spec_deps_def
      demo_message_def)

subsection \<open>Decided reports\<close>

lemma Instance_reports:
  assumes "Instance_ProcessMessage inst msg = Inr (Some report, inst')"
  shows "decided inst = None \<and> decided inst' \<noteq> None"
  using assms
  by (auto simp: Instance_ProcessMessage_def Let_def split: if_splits option.splits prod.splits)

lemma Instance_silent:
  assumes "Instance_ProcessMessage inst msg = Inr (None, inst')"
  shows "decided inst' = None \<longrightarrow> decided inst = None"
  using assms
  by (auto simp: Instance_ProcessMessage_def Let_def split: if_splits option.splits prod.splits)

lemma Controller_step_ok:
  assumes "controller_ok c" and "Controller_ProcessConsensusMessage c msg = (err, c')"
  shows "controller_ok c'"
proof (cases "Instance_ProcessMessage (liveInstance c) msg")
  case (Inl e)
  with assms show ?thesis by (simp add: Controller_ProcessConsensusMessage_def)
next
  case (Inr r)
  obtain report inst' where r: "r = (report, inst')" by (cases r)
  show ?thesis
  proof (cases report)
    case None
    with Inr r have i: "Instance_ProcessMessage (liveInstance c) msg = Inr (None, inst')" by simp
    from assms(2) i have "c' = c\<lparr>liveInstance := inst'\<rparr>"
      by (simp add: Controller_ProcessConsensusMessage_def)
    with assms(1) Instance_silent [OF i] show ?thesis by (auto simp: controller_ok_def)
  next
    case (Some rep)
    with Inr r have i: "Instance_ProcessMessage (liveInstance c) msg = Inr (Some rep, inst')" by simp
    from assms(2) i have "c' = c\<lparr>liveInstance := inst', decidedReports := decidedReports c @ [rep]\<rparr>"
      by (simp add: Controller_ProcessConsensusMessage_def)
    with assms(1) Instance_reports [OF i] show ?thesis by (auto simp: controller_ok_def)
  qed
qed

lemma reported_once_iff: "reported_once v = (\<forall>role c. ibfts v role = Some c \<longrightarrow> controller_ok c)"
  by (simp add: reported_once_def controller_ok_def)

lemma spec_processConsensusMsg_ok:
  assumes "reported_once v" and "ibftController = ControllerForIdentifier (ibfts v) identifier"
    and "spec_processConsensusMsg v ibftController m = Return (err, v')"
  shows "reported_once v'"
proof (cases ibftController)
  case None
  with assms show ?thesis by (simp add: spec_processConsensusMsg_def)
next
  case (Some c)
  with assms(2) have "ibfts v (GetRoleType identifier) = Some c"
    by (simp add: ControllerForIdentifier_def)
  with assms(1) have ok: "controller_ok c" by (simp add: reported_once_iff)
  obtain e c' where s: "Controller_ProcessConsensusMessage c m = (e, c')"
    by (cases "Controller_ProcessConsensusMessage c m")
  from Controller_step_ok [OF ok s] have ok': "controller_ok c'" .
  from assms(3) Some s have "v' = v\<lparr>ibfts := (ibfts v)(controllerRole c \<mapsto> c')\<rparr>"
    by (simp add: spec_processConsensusMsg_def)
  with assms(1) ok' show ?thesis by (simp add: reported_once_iff)
qed

lemma spec_processPostConsensusSig_ibfts:
  assumes "spec_processPostConsensusSig v c m = Return (err, v')"
  shows "ibfts v' = ibfts v"
  using assms by (auto simp: spec_processPostConsensusSig_def split: option.splits)

lemma messageHandler_ok:
  assumes "reported_once v"
    and "messageHandler (spec_deps validate decode decodePost) v msg = Return (err, v')"
  shows "reported_once v'"
proof (cases "validate v msg")
  case (Some e)
  with assms show ?thesis by (simp add: messageHandler_def spec_deps_def)
next
  case None
  show ?thesis
  proof (cases "MsgType msg")
    case SSVConsensusMsgType
    show ?thesis
    proof (cases "decode (Data msg)")
      case (Inl e)
      with assms None SSVConsensusMsgType show ?thesis
        by (simp add: messageHandler_def spec_deps_def)
    next
      case (Inr m)
      with assms(2) None SSVConsensusMsgType
      have "spec_processConsensusMsg v (ControllerForIdentifier (ibfts v) (MsgID msg)) m = Return (err, v')"
        by (simp add: messageHandler_def spec_deps_def)
      from spec_processConsensusMsg_ok [OF assms(1) refl this] show ?thesis .
    qed
  next
    case SSVPostConsensusMsgType
    show ?thesis
    proof (cases "decodePost (Data msg)")
      case (Inl e)
      with assms None SSVPostConsensusMsgType show ?thesis
        by (simp add: messageHandler_def spec_deps_def)
    next
      case (Inr m)
      with assms(2) None SSVPostConsensusMsgType
      have "spec_processPostConsensusSig v (ControllerForIdentifier (ibfts v) (MsgID msg)) m = Return (err, v')"
        by (simp add: messageHandler_def spec_deps_def)
      from spec_processPostConsensusSig_ibfts [OF this] assms(1) show ?thesis
        by (simp add: reported_once_def)
    qed
  next
    case SSVSyncMsgType
    with assms None show ?thesis by (simp add: messageHandler_def spec_deps_def)
  next
    case (SSVOtherMsgType n)
    with assms None show ?thesis by (simp add: messageHandler_def spec_deps_def)
  qed
qed

lemma do_event_ok:
  assumes "reported_once v"
    and "do_event (spec_deps validate decode decodePost) v e = Return v'"
  shows "reported_once v'"
proof (cases e)
  case (Deliver msg)
  show ?thesis
  proof (cases "readMode v")
    case True
    with assms(2) Deliver obtain err where
      "messageHandler (spec_deps validate decode decodePost) v msg = Return (err, v')"
      by (auto simp: do_event_def ProcessMsg_def split: outcome.splits)
    from messageHandler_ok [OF assms(1) this] show ?thesis .
  next
    case False
    with assms Deliver show ?thesis
      by (auto simp: do_event_def ProcessMsg_def reported_once_def)
  qed
next
  case Work
  show ?thesis
  proof (cases "queue (worker v)")
    case Nil
    with assms Work show ?thesis by (simp add: do_event_def worker_step_def)
  next
    case (Cons msg rest)
    let ?v = "v\<lparr>worker := (worker v)\<lparr>queue := rest\<rparr>\<rparr>"
    have ok: "reported_once ?v" using assms(1) by (simp add: reported_once_def)
    from assms(2) Work Cons obtain err where
      "messageHandler (spec_deps validate decode decodePost) ?v msg = Return (err, v')"
      by (auto simp: do_event_def worker_step_def split: outcome.splits)
    from messageHandler_ok [OF ok this] show ?thesis .
  qed
qed

text \<open>
  C1, on the instance and the controller modelled from the spec. Take the handler with
  any validation and any decoders, and a validator in which every controller has made
  at most one decided report (a new validator has made none). After every run of
  deliveries to \<open>ProcessMsg\<close> and steps of the worker, in read mode or not, every
  controller has still made at most one decided report. Since this holds after every
  run, it holds after every prefix of a run: no message after the one that made the
  instance decide adds a second report.
\<close>

theorem decided_reported_once:
  assumes "reported_once v"
  shows "reported_once (fst (run (spec_deps validate decode decodePost) v events))"
  using assms
proof (induction events arbitrary: v)
  case Nil
  then show ?case by simp
next
  case (Cons e events)
  show ?case
  proof (cases "do_event (spec_deps validate decode decodePost) v e")
    case (Panic p)
    with Cons.prems show ?thesis by simp
  next
    case (Return v')
    from do_event_ok [OF Cons.prems Return] have "reported_once v'" .
    from Cons.IH [OF this] Return show ?thesis by simp
  qed
qed

lemmas demo_defs =
  demo_commits_def demo_message_def demo_validator_def demo_options_def demo_deps_def spec_deps_def
  NewValidator_def setupIbfts_def setupIbftController_def spec_controller_New_def NewWorker_def
  demo_decode_def do_event_def ProcessMsg_def messageHandler_def ControllerForIdentifier_def
  GetRoleType_def spec_processConsensusMsg_def Controller_ProcessConsensusMessage_def
  Instance_ProcessMessage_def record_message_def commit_when_prepared_def decide_when_committed_def
  add_votes_def votes_def List.union_def List.insert_def worker_step_def TryEnqueue_def

lemma new_validator_reported_once: "reported_once (NewValidator spec_controller_New opt)"
  by (simp add: reported_once_def NewValidator_def setupIbfts_def setupIbftController_def
      spec_controller_New_def)

lemma demo_reported_once: "reported_once demo_validator"
  by (simp add: reported_once_def demo_validator_def NewValidator_def setupIbfts_def
      setupIbftController_def spec_controller_New_def)

lemma demo_run_read:
  "map_option decidedReports (ibfts (fst (run demo_deps demo_validator demo_commits)) RoleTypeAttester)
     = Some [(''v'', [2, 1, 3])] \<and>
   snd (run demo_deps demo_validator demo_commits) = None"
  by (simp add: demo_defs)

lemma demo_run_queued:
  "map_option decidedReports
     (ibfts (fst (run demo_deps (demo_validator\<lparr>readMode := False\<rparr>)
                    (demo_commits @ [Work, Work, Work, Work]))) RoleTypeAttester)
     = Some [(''v'', [2, 1, 3])]"
  by (simp add: demo_defs)

theorem decided_reported_once_witness:
  "reported_once demo_validator \<and>
   reported_once (fst (run demo_deps demo_validator demo_commits)) \<and>
   map_option decidedReports (ibfts (fst (run demo_deps demo_validator demo_commits)) RoleTypeAttester)
     = Some [(''v'', [2, 1, 3])]"
  using decided_reported_once [OF demo_reported_once, of "\<lambda>v msg. None" demo_decode demo_decodePost demo_commits]
    demo_reported_once demo_run_read
  by (simp add: demo_deps_def)

end
